theory Spec2Isabelle
  imports Complex_Main "HOL-Library.AList" "HOL-Library.Char_ord" "HOL-Library.List_Lexorder"
begin

section \<open>Data model\<close>

text \<open>
  The builders of \<^verbatim>\<open>dfcx_scrapi\<close> wrap proto-plus messages of the Dialogflow CX
  client library. Each message is a record; a field that is not given to a
  constructor holds its default (empty string, \<open>False\<close>, empty list, empty message).
  Fields that no modelled operation reads or writes are left out.
\<close>

text \<open>
  The exceptions. \<open>ValueError\<close>, \<open>UserWarning\<close>, \<open>TypeError\<close>, \<open>KeyError\<close> and
  \<open>AttributeError\<close> are Python's; \<open>MissingProtoObj\<close> is the failure of the base
  class's check that the builder holds an object, and \<open>RemoteError\<close> any failure of a
  remote call.
\<close>

datatype error =
    ValueError
  | UserWarning
  | TypeError
  | KeyError
  | AttributeError
  | IndexError
  | MissingProtoObj
  | RemoteError

datatype ResponseMessage =
    TextMessage "string list"
  | OutputAudioText string
  | PlayAudio string

record Fulfillment =
  ff_messages :: "ResponseMessage list"
  ff_webhook :: string
  ff_return_partial_responses :: bool
  ff_tag :: string
  ff_set_parameter_actions :: "(string \<times> string) list"

record TransitionRoute =
  tr_intent :: string
  tr_condition :: string
  tr_trigger_fulfillment :: Fulfillment
  tr_target_page :: string
  tr_target_flow :: string

record EventHandler =
  eh_event :: string
  eh_trigger_fulfillment :: Fulfillment
  eh_target_page :: string
  eh_target_flow :: string

record FillBehavior =
  initial_prompt_fulfillment :: Fulfillment
  reprompt_event_handlers :: "EventHandler list"

record Parameter =
  param_display_name :: string
  param_required :: bool
  param_entity_type :: string
  param_is_list :: bool
  param_fill_behavior :: FillBehavior
  param_default_value :: string
  param_redact :: bool

record Form =
  parameters :: "Parameter list"

record Page =
  page_name :: string
  page_display_name :: string
  page_entry_fulfillment :: Fulfillment
  page_form :: Form
  page_transition_route_groups :: "string list"
  page_transition_routes :: "TransitionRoute list"
  page_event_handlers :: "EventHandler list"

record TransitionRouteGroup =
  trg_name :: string
  trg_display_name :: string
  trg_transition_routes :: "TransitionRoute list"

text \<open>The default-valued messages, as the constructors with no argument build them.\<close>

definition Fulfillment0 :: Fulfillment where
  "Fulfillment0 = \<lparr>ff_messages = [], ff_webhook = [], ff_return_partial_responses = False,
     ff_tag = [], ff_set_parameter_actions = []\<rparr>"

definition Page0 :: Page where
  "Page0 = \<lparr>page_name = [], page_display_name = [], page_entry_fulfillment = Fulfillment0,
     page_form = \<lparr>parameters = []\<rparr>, page_transition_route_groups = [],
     page_transition_routes = [], page_event_handlers = []\<rparr>"

definition TransitionRouteGroup0 :: TransitionRouteGroup where
  "TransitionRouteGroup0 = \<lparr>trg_name = [], trg_display_name = [], trg_transition_routes = []\<rparr>"

subsection \<open>Truth values of Python objects\<close>

text \<open>
  The code tests objects with \<^verbatim>\<open>if obj:\<close> and \<^verbatim>\<open>if not obj:\<close>. A proto-plus
  message is true when at least one of its fields is true (\<^verbatim>\<open>Message.__bool__\<close>),
  a string or a list when it is not empty, \<^verbatim>\<open>None\<close> never.
\<close>

definition truthy_Fulfillment :: "Fulfillment \<Rightarrow> bool" where
  "truthy_Fulfillment f \<longleftrightarrow>
     ff_messages f \<noteq> [] \<or> ff_webhook f \<noteq> [] \<or> ff_return_partial_responses f \<or>
     ff_tag f \<noteq> [] \<or> ff_set_parameter_actions f \<noteq> []"

definition truthy_TransitionRoute :: "TransitionRoute \<Rightarrow> bool" where
  "truthy_TransitionRoute r \<longleftrightarrow>
     tr_intent r \<noteq> [] \<or> tr_condition r \<noteq> [] \<or> truthy_Fulfillment (tr_trigger_fulfillment r) \<or>
     tr_target_page r \<noteq> [] \<or> tr_target_flow r \<noteq> []"

definition truthy_EventHandler :: "EventHandler \<Rightarrow> bool" where
  "truthy_EventHandler h \<longleftrightarrow>
     eh_event h \<noteq> [] \<or> truthy_Fulfillment (eh_trigger_fulfillment h) \<or>
     eh_target_page h \<noteq> [] \<or> eh_target_flow h \<noteq> []"

definition truthy_Page :: "Page \<Rightarrow> bool" where
  "truthy_Page p \<longleftrightarrow>
     page_name p \<noteq> [] \<or> page_display_name p \<noteq> [] \<or>
     truthy_Fulfillment (page_entry_fulfillment p) \<or> parameters (page_form p) \<noteq> [] \<or>
     page_transition_route_groups p \<noteq> [] \<or> page_transition_routes p \<noteq> [] \<or>
     page_event_handlers p \<noteq> []"

definition truthy_TransitionRouteGroup :: "TransitionRouteGroup \<Rightarrow> bool" where
  "truthy_TransitionRouteGroup g \<longleftrightarrow>
     trg_name g \<noteq> [] \<or> trg_display_name g \<noteq> [] \<or> trg_transition_routes g \<noteq> []"

text \<open>
  The arguments of the builder methods are not typed at run time: the methods test them
  with \<^verbatim>\<open>isinstance\<close>. An argument is therefore a Python value.
\<close>

datatype pyval =
    PyNone
  | PyStr string
  | PyBool bool
  | PyInt int
  | PyFulfillment Fulfillment
  | PyTransitionRoute TransitionRoute
  | PyEventHandler EventHandler
  | PyList "pyval list"
  | PyDict "(string \<times> pyval) list"

fun truthy :: "pyval \<Rightarrow> bool" where
  "truthy PyNone = False"
| "truthy (PyStr s) = (s \<noteq> [])"
| "truthy (PyBool b) = b"
| "truthy (PyInt i) = (i \<noteq> 0)"
| "truthy (PyFulfillment f) = truthy_Fulfillment f"
| "truthy (PyTransitionRoute r) = truthy_TransitionRoute r"
| "truthy (PyEventHandler h) = truthy_EventHandler h"
| "truthy (PyList xs) = (xs \<noteq> [])"
| "truthy (PyDict kvs) = (kvs \<noteq> [])"

fun is_str :: "pyval \<Rightarrow> bool" where
  "is_str (PyStr s) = True"
| "is_str v = False"

fun is_bool :: "pyval \<Rightarrow> bool" where
  "is_bool (PyBool b) = True"
| "is_bool v = False"

fun is_list :: "pyval \<Rightarrow> bool" where
  "is_list (PyList xs) = True"
| "is_list v = False"

fun is_Fulfillment :: "pyval \<Rightarrow> bool" where
  "is_Fulfillment (PyFulfillment f) = True"
| "is_Fulfillment v = False"

fun is_TransitionRoute :: "pyval \<Rightarrow> bool" where
  "is_TransitionRoute (PyTransitionRoute r) = True"
| "is_TransitionRoute v = False"

fun is_EventHandler :: "pyval \<Rightarrow> bool" where
  "is_EventHandler (PyEventHandler h) = True"
| "is_EventHandler v = False"

text \<open>Reading a checked argument back as the value it carries.\<close>

fun str_of :: "pyval \<Rightarrow> string" where
  "str_of (PyStr s) = s"
| "str_of v = []"

fun bool_of :: "pyval \<Rightarrow> bool" where
  "bool_of (PyBool b) = b"
| "bool_of v = False"

fun Fulfillment_of :: "pyval \<Rightarrow> Fulfillment" where
  "Fulfillment_of (PyFulfillment f) = f"
| "Fulfillment_of v = Fulfillment0"

fun TransitionRoute_opt :: "pyval \<Rightarrow> TransitionRoute option" where
  "TransitionRoute_opt (PyTransitionRoute r) = Some r"
| "TransitionRoute_opt v = None"

fun EventHandler_opt :: "pyval \<Rightarrow> EventHandler option" where
  "EventHandler_opt (PyEventHandler h) = Some h"
| "EventHandler_opt v = None"

fun str_opt :: "pyval \<Rightarrow> string option" where
  "str_opt (PyStr s) = Some s"
| "str_opt v = None"

text \<open>\<^verbatim>\<open>if not isinstance(x, list): x = [x]\<close>\<close>

fun as_list :: "pyval \<Rightarrow> pyval list" where
  "as_list (PyList xs) = xs"
| "as_list v = [v]"

section \<open>The shared builder base\<close>

text \<open>
  A builder holds one slot, \<^verbatim>\<open>proto_obj\<close>, which is \<^verbatim>\<open>None\<close> until an object is
  created or loaded. A method takes the builder and returns its result (the returned
  object, or the exception raised) together with the builder as the call leaves it.
\<close>

record 'm builder =
  proto_obj :: "'m option"

type_synonym ('m, 'a) builder_method = "'m builder \<Rightarrow> (error + 'a) \<times> 'm builder"

text \<open>\<^verbatim>\<open>if self.proto_obj\<close>: the slot is filled and the message in it is true.\<close>

definition truthy_proto_obj :: "('m \<Rightarrow> bool) \<Rightarrow> 'm builder \<Rightarrow> bool" where
  "truthy_proto_obj t self = (case proto_obj self of None \<Rightarrow> False | Some m \<Rightarrow> t m)"

text \<open>
  Modelled from the spec: \<^verbatim>\<open>BuildersCommon._check_proto_obj_attr_exist\<close> is not among
  the sources. The spec's state-precondition violation "operating on a builder with no
  object yet" is raised immediately; otherwise the held object is read.
\<close>

definition check_proto_obj_attr_exist :: "'m builder \<Rightarrow> error + 'm" where
  "check_proto_obj_attr_exist self =
     (case proto_obj self of None \<Rightarrow> Inl MissingProtoObj | Some m \<Rightarrow> Inr m)"

text \<open>
  Modelled from the spec: \<^verbatim>\<open>BuildersCommon._is_type_or_list_of_types\<close> is not among
  the sources. An argument is rejected "if not of the declared kind or a homogeneous
  collection of that kind", an argument-shape violation.
\<close>

definition is_type_or_list_of_types :: "pyval \<Rightarrow> (pyval \<Rightarrow> bool) \<Rightarrow> error + unit" where
  "is_type_or_list_of_types obj is_type =
     (if is_type obj then Inr ()
      else if is_list obj \<and> list_all is_type (as_list obj) then Inr ()
      else Inl ValueError)"

text \<open>
  The collaborators of the composite builders that are not among the sources: the leaf
  builders for routes, event handlers and fulfillments, and the matching helpers of the
  base class. The composite builders are modelled for any behaviour of theirs.

  \<^item> \<open>trb_create\<close>: \<^verbatim>\<open>TransitionRouteBuilder().create_new_proto_obj(intent, condition,
    trigger_fulfillment, target_page, target_flow)\<close>;
  \<^item> \<open>trb_set_fulfillment\<close>: \<^verbatim>\<open>trb.set_fulfillment(message, parameter_map)\<close>;
  \<^item> \<open>ehb_create\<close>: \<^verbatim>\<open>EventHandlerBuilder().create_new_proto_obj(event,
    trigger_fulfillment, target_page, target_flow)\<close>;
  \<^item> \<open>ehb_set_fulfillment\<close>: \<^verbatim>\<open>ehb.set_fulfillment(message, parameter_map)\<close>;
  \<^item> \<open>fb_build\<close>: the three \<^verbatim>\<open>FulfillmentBuilder\<close> calls of \<^verbatim>\<open>set_entry_fulfillment\<close>,
    on the arguments message, response_type, mode, webhook, tag,
    return_partial_responses, parameter_map;
  \<^item> \<open>match_transition_route\<close>: \<^verbatim>\<open>_match_transition_route(transition_route,
    target_route, intent, condition)\<close>;
  \<^item> \<open>find_unmatched_event_handlers\<close>, \<open>find_unmatched_event_handlers_by_name\<close>: the
    helpers of the same names, on the held event handlers.
\<close>

record collaborators =
  trb_create :: "pyval \<Rightarrow> pyval \<Rightarrow> pyval \<Rightarrow> pyval \<Rightarrow> pyval \<Rightarrow> error + TransitionRoute"
  trb_set_fulfillment :: "pyval \<Rightarrow> pyval \<Rightarrow> TransitionRoute \<Rightarrow> error + TransitionRoute"
  ehb_create :: "pyval \<Rightarrow> pyval \<Rightarrow> pyval \<Rightarrow> pyval \<Rightarrow> error + EventHandler"
  ehb_set_fulfillment :: "pyval \<Rightarrow> pyval \<Rightarrow> EventHandler \<Rightarrow> error + EventHandler"
  fb_build :: "pyval list \<Rightarrow> error + Fulfillment"
  match_transition_route :: "TransitionRoute \<Rightarrow> pyval \<Rightarrow> pyval \<Rightarrow> pyval \<Rightarrow> error + bool"
  find_unmatched_event_handlers :: "EventHandler list \<Rightarrow> pyval \<Rightarrow> error + EventHandler list"
  find_unmatched_event_handlers_by_name :: "EventHandler list \<Rightarrow> pyval \<Rightarrow> error + EventHandler list"

section \<open>PageBuilder\<close>

text \<open>\<^verbatim>\<open>Page(display_name=..., entry_fulfillment=...)\<close>\<close>

definition new_Page :: "string \<Rightarrow> Fulfillment \<Rightarrow> Page" where
  "new_Page display_name entry_fulfillment =
     Page0\<lparr>page_display_name := display_name, page_entry_fulfillment := entry_fulfillment\<rparr>"

text \<open>
  \<^verbatim>\<open>PageBuilder._create_new_proto_obj\<close> (\<^verbatim>\<open>create_new_page\<close> forwards to it). The
  argument checks come first, then the overwrite check, then the assignment. The last
  two lines, \<^verbatim>\<open>self._add_proto_attrs_to_builder_obj()\<close> (a method of the base class,
  which copies the fields of the held object to the builder) and the return of
  \<^verbatim>\<open>self.proto_obj\<close>, read the slot, which is filled at that point.
\<close>

definition page_create_new_proto_obj :: "pyval \<Rightarrow> pyval \<Rightarrow> bool \<Rightarrow> (Page, Page) builder_method" where
  "page_create_new_proto_obj display_name entry_fulfillment overwrite self =
     (if \<not> (truthy display_name \<and> is_str display_name) then (Inl ValueError, self)
      else if truthy entry_fulfillment \<and> \<not> is_Fulfillment entry_fulfillment
        then (Inl ValueError, self)
      else if truthy_proto_obj truthy_Page self \<and> \<not> overwrite then (Inl UserWarning, self)
      else
        let self' =
          (if overwrite \<or> \<not> truthy_proto_obj truthy_Page self
           then
             (let entry_fulfillment =
                    (if \<not> truthy entry_fulfillment then PyFulfillment Fulfillment0
                     else entry_fulfillment)
              in self\<lparr>proto_obj :=
                   Some (new_Page (str_of display_name) (Fulfillment_of entry_fulfillment))\<rparr>)
           else self)
        in (case proto_obj self' of
              None \<Rightarrow> (Inl MissingProtoObj, self')
            | Some p \<Rightarrow> (Inr p, self')))"

definition create_new_page :: "pyval \<Rightarrow> pyval \<Rightarrow> bool \<Rightarrow> (Page, Page) builder_method" where
  "create_new_page display_name entry_fulfillment overwrite =
     page_create_new_proto_obj display_name entry_fulfillment overwrite"

text \<open>
  \<^verbatim>\<open>PageBuilder.set_entry_fulfillment\<close>: the fulfillment is built by the
  \<^verbatim>\<open>FulfillmentBuilder\<close> and then assigned.
\<close>

definition set_entry_fulfillment ::
  "collaborators \<Rightarrow> pyval \<Rightarrow> pyval \<Rightarrow> pyval \<Rightarrow> pyval \<Rightarrow> pyval \<Rightarrow> pyval \<Rightarrow> pyval \<Rightarrow>
     (Page, Page) builder_method" where
  "set_entry_fulfillment c message response_type mode webhook tag return_partial_responses
       parameter_map self =
     (case check_proto_obj_attr_exist self of
        Inl e \<Rightarrow> (Inl e, self)
      | Inr p \<Rightarrow>
          (case fb_build c [message, response_type, mode, webhook, tag,
                            return_partial_responses, parameter_map] of
             Inl e \<Rightarrow> (Inl e, self)
           | Inr f \<Rightarrow>
               let p' = p\<lparr>page_entry_fulfillment := f\<rparr>
               in (Inr p', self\<lparr>proto_obj := Some p'\<rparr>)))"

definition routes_of :: "pyval \<Rightarrow> TransitionRoute list" where
  "routes_of v = List.map_filter TransitionRoute_opt (as_list v)"

definition handlers_of :: "pyval \<Rightarrow> EventHandler list" where
  "handlers_of v = List.map_filter EventHandler_opt (as_list v)"

definition strs_of :: "pyval \<Rightarrow> string list" where
  "strs_of v = List.map_filter str_opt (as_list v)"

text \<open>
  What the \<^verbatim>\<open>FillBehavior\<close> constructor makes of the \<^verbatim>\<open>reprompt_event_handlers\<close>
  argument of \<^verbatim>\<open>add_parameter\<close>. A true value has been checked and wrapped into a
  list by then. A false value reaches the constructor as it is: \<^verbatim>\<open>None\<close> leaves the
  field empty, and so does an empty list or the empty string, which has no element to
  add; any other false value (\<^verbatim>\<open>False\<close>, \<^verbatim>\<open>0\<close>, a message with no field set, an empty
  dictionary, which is read as such a message) cannot be iterated and is rejected.
\<close>

definition reprompt_arg :: "pyval \<Rightarrow> error + EventHandler list" where
  "reprompt_arg v =
     (if truthy v then Inr (handlers_of v)
      else if v = PyNone \<or> v = PyList [] \<or> v = PyStr [] then Inr []
      else Inl TypeError)"

text \<open>\<^verbatim>\<open>PageBuilder.add_parameter\<close>\<close>

definition add_parameter ::
  "pyval \<Rightarrow> pyval \<Rightarrow> pyval \<Rightarrow> pyval \<Rightarrow> pyval \<Rightarrow> pyval \<Rightarrow> pyval \<Rightarrow> pyval \<Rightarrow>
     (Page, Page) builder_method" where
  "add_parameter display_name entity_type initial_prompt required default_value is_list_arg
       redact reprompt self =
     (case check_proto_obj_attr_exist self of
        Inl e \<Rightarrow> (Inl e, self)
      | Inr p \<Rightarrow>
          if \<not> (truthy display_name \<and> is_str display_name) then (Inl ValueError, self)
          else if \<not> (truthy entity_type \<and> is_str entity_type) then (Inl ValueError, self)
          else if \<not> (truthy initial_prompt \<and> is_Fulfillment initial_prompt)
            then (Inl ValueError, self)
          else if \<not> (is_bool required \<and> is_bool is_list_arg \<and> is_bool redact)
            then (Inl ValueError, self)
          else
            (case (if truthy reprompt then is_type_or_list_of_types reprompt is_EventHandler
                   else Inr ()) of
               Inl e \<Rightarrow> (Inl e, self)
             | Inr u \<Rightarrow>
                 if \<not> truthy required \<and> \<not> is_str default_value then (Inl ValueError, self)
                 else
                   (case reprompt_arg reprompt of
                      Inl e \<Rightarrow> (Inl e, self)
                    | Inr handlers \<Rightarrow>
                        let the_param = \<lparr>
                              param_display_name = str_of display_name,
                              param_required = bool_of required,
                              param_entity_type = str_of entity_type,
                              param_is_list = bool_of is_list_arg,
                              param_fill_behavior = \<lparr>
                                initial_prompt_fulfillment = Fulfillment_of initial_prompt,
                                reprompt_event_handlers = handlers\<rparr>,
                              param_default_value =
                                (if truthy required then [] else str_of default_value),
                              param_redact = bool_of redact\<rparr>;
                            p' = p\<lparr>page_form :=
                                   \<lparr>parameters = parameters (page_form p) @ [the_param]\<rparr>\<rparr>
                        in (Inr p', self\<lparr>proto_obj := Some p'\<rparr>))))"

text \<open>
  The routes an \<^verbatim>\<open>add_transition_route\<close> call appends: the checked
  \<^verbatim>\<open>transition_routes\<close> argument when it is not \<^verbatim>\<open>None\<close>, else one route built by
  the \<^verbatim>\<open>TransitionRouteBuilder\<close>. Both composite builders share these lines.
\<close>

definition routes_to_add ::
  "collaborators \<Rightarrow> pyval \<Rightarrow> pyval \<Rightarrow> pyval \<Rightarrow> pyval \<Rightarrow> pyval \<Rightarrow> pyval \<Rightarrow> pyval \<Rightarrow> pyval \<Rightarrow>
     error + TransitionRoute list" where
  "routes_to_add c transition_routes intent condition target_page target_flow
       trigger_fulfillment agent_response parameter_map =
     (if transition_routes \<noteq> PyNone then
        (case is_type_or_list_of_types transition_routes is_TransitionRoute of
           Inl e \<Rightarrow> Inl e
         | Inr u \<Rightarrow> Inr (routes_of transition_routes))
      else
        (case trb_create c intent condition trigger_fulfillment target_page target_flow of
           Inl e \<Rightarrow> Inl e
         | Inr r \<Rightarrow>
             if trigger_fulfillment = PyNone then
               (case trb_set_fulfillment c agent_response parameter_map r of
                  Inl e \<Rightarrow> Inl e
                | Inr r' \<Rightarrow> Inr [r'])
             else Inr [r]))"

text \<open>\<^verbatim>\<open>PageBuilder.add_transition_route\<close>\<close>

definition page_add_transition_route ::
  "collaborators \<Rightarrow> pyval \<Rightarrow> pyval \<Rightarrow> pyval \<Rightarrow> pyval \<Rightarrow> pyval \<Rightarrow> pyval \<Rightarrow> pyval \<Rightarrow> pyval \<Rightarrow>
     (Page, Page) builder_method" where
  "page_add_transition_route c transition_routes intent condition target_page target_flow
       trigger_fulfillment agent_response parameter_map self =
     (case check_proto_obj_attr_exist self of
        Inl e \<Rightarrow> (Inl e, self)
      | Inr p \<Rightarrow>
          (case routes_to_add c transition_routes intent condition target_page target_flow
                  trigger_fulfillment agent_response parameter_map of
             Inl e \<Rightarrow> (Inl e, self)
           | Inr rs \<Rightarrow>
               let p' = p\<lparr>page_transition_routes := page_transition_routes p @ rs\<rparr>
               in (Inr p', self\<lparr>proto_obj := Some p'\<rparr>)))"

text \<open>\<^verbatim>\<open>PageBuilder.add_event_handler\<close>\<close>

definition add_event_handler ::
  "collaborators \<Rightarrow> pyval \<Rightarrow> pyval \<Rightarrow> pyval \<Rightarrow> pyval \<Rightarrow> pyval \<Rightarrow> pyval \<Rightarrow> pyval \<Rightarrow>
     (Page, Page) builder_method" where
  "add_event_handler c event_handlers event target_page target_flow trigger_fulfillment
       agent_response parameter_map self =
     (case check_proto_obj_attr_exist self of
        Inl e \<Rightarrow> (Inl e, self)
      | Inr p \<Rightarrow>
          (case
             (if event_handlers \<noteq> PyNone then
                (case is_type_or_list_of_types event_handlers is_EventHandler of
                   Inl e \<Rightarrow> Inl e
                 | Inr u \<Rightarrow> Inr (handlers_of event_handlers))
              else
                (case ehb_create c event trigger_fulfillment target_page target_flow of
                   Inl e \<Rightarrow> Inl e
                 | Inr h \<Rightarrow>
                     if trigger_fulfillment = PyNone then
                       (case ehb_set_fulfillment c agent_response parameter_map h of
                          Inl e \<Rightarrow> Inl e
                        | Inr h' \<Rightarrow> Inr [h'])
                     else Inr [h]))
           of
             Inl e \<Rightarrow> (Inl e, self)
           | Inr hs \<Rightarrow>
               let p' = p\<lparr>page_event_handlers := page_event_handlers p @ hs\<rparr>
               in (Inr p', self\<lparr>proto_obj := Some p'\<rparr>)))"

text \<open>\<^verbatim>\<open>PageBuilder.add_transition_route_group\<close>\<close>

definition add_transition_route_group :: "pyval \<Rightarrow> (Page, Page) builder_method" where
  "add_transition_route_group transition_route_groups self =
     (case check_proto_obj_attr_exist self of
        Inl e \<Rightarrow> (Inl e, self)
      | Inr p \<Rightarrow>
          (case is_type_or_list_of_types transition_route_groups is_str of
             Inl e \<Rightarrow> (Inl e, self)
           | Inr u \<Rightarrow>
               let p' = p\<lparr>page_transition_route_groups :=
                          page_transition_route_groups p @ strs_of transition_route_groups\<rparr>
               in (Inr p', self\<lparr>proto_obj := Some p'\<rparr>)))"

text \<open>\<^verbatim>\<open>PageBuilder.remove_parameter\<close>\<close>

definition remove_parameter :: "pyval \<Rightarrow> (Page, Page) builder_method" where
  "remove_parameter display_name self =
     (case check_proto_obj_attr_exist self of
        Inl e \<Rightarrow> (Inl e, self)
      | Inr p \<Rightarrow>
          if \<not> truthy display_name then (Inl ValueError, self)
          else
            (case is_type_or_list_of_types display_name is_str of
               Inl e \<Rightarrow> (Inl e, self)
             | Inr u \<Rightarrow>
                 let new_params =
                       filter (\<lambda>param. PyStr (param_display_name param) \<notin>
                                         set (as_list display_name))
                         (parameters (page_form p));
                     p' = p\<lparr>page_form := \<lparr>parameters = new_params\<rparr>\<rparr>
                 in (Inr p', self\<lparr>proto_obj := Some p'\<rparr>)))"

text \<open>
  The loop of \<^verbatim>\<open>remove_transition_route\<close>, the same in both composite builders: the
  held routes are walked in order, a route that \<^verbatim>\<open>_match_transition_route\<close> accepts is
  skipped, any other is appended to \<^verbatim>\<open>new_routes\<close>; an exception of the helper ends
  the loop.
\<close>

fun unmatched_routes ::
  "collaborators \<Rightarrow> pyval \<Rightarrow> pyval \<Rightarrow> pyval \<Rightarrow> TransitionRoute list \<Rightarrow> TransitionRoute list \<Rightarrow>
     error + TransitionRoute list" where
  "unmatched_routes c target intent condition new_routes [] = Inr new_routes"
| "unmatched_routes c target intent condition new_routes (tr # trs) =
     (case match_transition_route c tr target intent condition of
        Inl e \<Rightarrow> Inl e
      | Inr matched \<Rightarrow>
          if matched then unmatched_routes c target intent condition new_routes trs
          else unmatched_routes c target intent condition (new_routes @ [tr]) trs)"

text \<open>\<^verbatim>\<open>PageBuilder.remove_transition_route\<close>\<close>

definition page_remove_transition_route ::
  "collaborators \<Rightarrow> pyval \<Rightarrow> pyval \<Rightarrow> pyval \<Rightarrow> (Page, Page) builder_method" where
  "page_remove_transition_route c transition_route intent condition self =
     (case check_proto_obj_attr_exist self of
        Inl e \<Rightarrow> (Inl e, self)
      | Inr p \<Rightarrow>
          (case unmatched_routes c transition_route intent condition []
                  (page_transition_routes p) of
             Inl e \<Rightarrow> (Inl e, self)
           | Inr new_routes \<Rightarrow>
               let p' = p\<lparr>page_transition_routes := new_routes\<rparr>
               in (Inr p', self\<lparr>proto_obj := Some p'\<rparr>)))"

text \<open>\<^verbatim>\<open>PageBuilder.remove_event_handler\<close>\<close>

definition remove_event_handler :: "collaborators \<Rightarrow> pyval \<Rightarrow> pyval \<Rightarrow> (Page, Page) builder_method" where
  "remove_event_handler c event_handlers event_names self =
     (case check_proto_obj_attr_exist self of
        Inl e \<Rightarrow> (Inl e, self)
      | Inr p \<Rightarrow>
          if truthy event_handlers \<and> truthy event_names then (Inl UserWarning, self)
          else
            (case
               (if truthy event_handlers
                  then find_unmatched_event_handlers c (page_event_handlers p) event_handlers
                else if truthy event_names
                  then find_unmatched_event_handlers_by_name c (page_event_handlers p) event_names
                else Inl UserWarning)
             of
               Inl e \<Rightarrow> (Inl e, self)
             | Inr new_ehs \<Rightarrow>
                 let p' = p\<lparr>page_event_handlers := new_ehs\<rparr>
                 in (Inr p', self\<lparr>proto_obj := Some p'\<rparr>)))"

text \<open>\<^verbatim>\<open>PageBuilder.remove_transition_route_group\<close>\<close>

definition remove_transition_route_group :: "pyval \<Rightarrow> (Page, Page) builder_method" where
  "remove_transition_route_group transition_route_groups self =
     (case check_proto_obj_attr_exist self of
        Inl e \<Rightarrow> (Inl e, self)
      | Inr p \<Rightarrow>
          (case is_type_or_list_of_types transition_route_groups is_str of
             Inl e \<Rightarrow> (Inl e, self)
           | Inr u \<Rightarrow>
               let new_trgs =
                     filter (\<lambda>trg. PyStr trg \<notin> set (as_list transition_route_groups))
                       (page_transition_route_groups p);
                   p' = p\<lparr>page_transition_route_groups := new_trgs\<rparr>
               in (Inr p', self\<lparr>proto_obj := Some p'\<rparr>)))"

section \<open>TransitionRouteGroupBuilder\<close>

text \<open>\<^verbatim>\<open>TransitionRouteGroup(display_name=..., transition_routes=...)\<close>\<close>

definition new_TransitionRouteGroup :: "string \<Rightarrow> TransitionRoute list \<Rightarrow> TransitionRouteGroup" where
  "new_TransitionRouteGroup display_name transition_routes =
     TransitionRouteGroup0\<lparr>trg_display_name := display_name,
       trg_transition_routes := transition_routes\<rparr>"

text \<open>
  \<^verbatim>\<open>TransitionRouteGroupBuilder._create_new_proto_obj\<close>: a route given alone is put
  into a list (\<open>routes_of\<close>).
\<close>

definition trg_create_new_proto_obj ::
  "pyval \<Rightarrow> pyval \<Rightarrow> bool \<Rightarrow> (TransitionRouteGroup, TransitionRouteGroup) builder_method" where
  "trg_create_new_proto_obj display_name transition_routes overwrite self =
     (if \<not> (truthy display_name \<and> is_str display_name) then (Inl ValueError, self)
      else if truthy transition_routes \<and>
              \<not> (is_TransitionRoute transition_routes \<or>
                 (is_list transition_routes \<and>
                  list_all is_TransitionRoute (as_list transition_routes)))
        then (Inl ValueError, self)
      else if truthy_proto_obj truthy_TransitionRouteGroup self \<and> \<not> overwrite
        then (Inl UserWarning, self)
      else
        let self' =
          (if overwrite \<or> \<not> truthy_proto_obj truthy_TransitionRouteGroup self
           then
             (let transition_routes =
                    (if \<not> truthy transition_routes then PyList [] else transition_routes)
              in self\<lparr>proto_obj :=
                   Some (new_TransitionRouteGroup (str_of display_name)
                           (routes_of transition_routes))\<rparr>)
           else self)
        in (case proto_obj self' of
              None \<Rightarrow> (Inl MissingProtoObj, self')
            | Some g \<Rightarrow> (Inr g, self')))"

definition create_new_transition_route_group ::
  "pyval \<Rightarrow> pyval \<Rightarrow> bool \<Rightarrow> (TransitionRouteGroup, TransitionRouteGroup) builder_method" where
  "create_new_transition_route_group display_name transition_routes overwrite =
     trg_create_new_proto_obj display_name transition_routes overwrite"

text \<open>\<^verbatim>\<open>TransitionRouteGroupBuilder.add_transition_route\<close>\<close>

definition trg_add_transition_route ::
  "collaborators \<Rightarrow> pyval \<Rightarrow> pyval \<Rightarrow> pyval \<Rightarrow> pyval \<Rightarrow> pyval \<Rightarrow> pyval \<Rightarrow> pyval \<Rightarrow> pyval \<Rightarrow>
     (TransitionRouteGroup, TransitionRouteGroup) builder_method" where
  "trg_add_transition_route c transition_routes intent condition target_page target_flow
       trigger_fulfillment agent_response parameter_map self =
     (case check_proto_obj_attr_exist self of
        Inl e \<Rightarrow> (Inl e, self)
      | Inr g \<Rightarrow>
          (case routes_to_add c transition_routes intent condition target_page target_flow
                  trigger_fulfillment agent_response parameter_map of
             Inl e \<Rightarrow> (Inl e, self)
           | Inr rs \<Rightarrow>
               let g' = g\<lparr>trg_transition_routes := trg_transition_routes g @ rs\<rparr>
               in (Inr g', self\<lparr>proto_obj := Some g'\<rparr>)))"

text \<open>\<^verbatim>\<open>TransitionRouteGroupBuilder.remove_transition_route\<close>\<close>

definition trg_remove_transition_route ::
  "collaborators \<Rightarrow> pyval \<Rightarrow> pyval \<Rightarrow> pyval \<Rightarrow>
     (TransitionRouteGroup, TransitionRouteGroup) builder_method" where
  "trg_remove_transition_route c transition_route intent condition self =
     (case check_proto_obj_attr_exist self of
        Inl e \<Rightarrow> (Inl e, self)
      | Inr g \<Rightarrow>
          (case unmatched_routes c transition_route intent condition []
                  (trg_transition_routes g) of
             Inl e \<Rightarrow> (Inl e, self)
           | Inr new_routes \<Rightarrow>
               let g' = g\<lparr>trg_transition_routes := new_routes\<rparr>
               in (Inr g', self\<lparr>proto_obj := Some g'\<rparr>)))"

section \<open>PageStats\<close>

text \<open>
  The dataclass \<^verbatim>\<open>PageStats\<close>, with the counters that \<^verbatim>\<open>calc_parameter_stats\<close>
  writes; the counters of the routes, event handlers and route groups are written by
  other methods only. \<^verbatim>\<open>parameters_ratio\<close> starts as the integer 0 and receives the
  quotient of two integers (Python's \<^verbatim>\<open>/\<close>), taken here as the exact rational.
\<close>

record PageStats =
  page_proto_obj :: Page
  has_entry_fulfill :: bool
  parameters_count :: int
  parameters_with_event_handler_count :: int
  parameters_with_webhook_fulfill_count :: int
  parameters_ratio :: rat

definition new_PageStats :: "Page \<Rightarrow> PageStats" where
  "new_PageStats page = \<lparr>page_proto_obj = page, has_entry_fulfill = False,
     parameters_count = 0, parameters_with_event_handler_count = 0,
     parameters_with_webhook_fulfill_count = 0, parameters_ratio = 0\<rparr>"

text \<open>
  Modelled from the spec: \<^verbatim>\<open>FulfillmentBuilder.has_webhook\<close> is not among the sources.
  The spec counts fulfillments "by presence of fulfillment/webhook".
\<close>

definition has_webhook :: "Fulfillment \<Rightarrow> bool" where
  "has_webhook f \<longleftrightarrow> ff_webhook f \<noteq> []"

text \<open>The loop of \<^verbatim>\<open>calc_parameter_stats\<close> over the form's parameters.\<close>

fun count_parameters :: "Parameter list \<Rightarrow> PageStats \<Rightarrow> PageStats" where
  "count_parameters [] st = st"
| "count_parameters (param # params) st =
     (let st1 =
            (if has_webhook (initial_prompt_fulfillment (param_fill_behavior param))
             then st\<lparr>parameters_with_webhook_fulfill_count :=
                       parameters_with_webhook_fulfill_count st + 1\<rparr>
             else st);
          st2 =
            (if reprompt_event_handlers (param_fill_behavior param) \<noteq> []
             then st1\<lparr>parameters_with_event_handler_count :=
                        parameters_with_event_handler_count st1 + 1\<rparr>
             else st1)
      in count_parameters params st2)"

definition calc_parameter_stats :: "PageStats \<Rightarrow> PageStats" where
  "calc_parameter_stats st =
     (let params = parameters (page_form (page_proto_obj st));
          st1 = st\<lparr>parameters_count := int (length params)\<rparr>;
          st2 = count_parameters params st1
      in if parameters_count st2 \<noteq> 0
         then st2\<lparr>parameters_ratio :=
                    of_int (parameters_with_event_handler_count st2) /
                    of_int (parameters_count st2)\<rparr>
         else st2)"

section \<open>EntityTypes, the wrapper of the remote service\<close>

record Entity =
  entity_value :: string
  synonyms :: "string list"

text \<open>
  The message \<^verbatim>\<open>EntityType\<close>. The two enum fields hold the number of the member
  (\<^verbatim>\<open>kind\<close>: 0 unspecified, 1 map, 2 list, 3 regexp; \<^verbatim>\<open>auto_expansion_mode\<close>: 0
  unspecified, 1 default).
\<close>

record EntityType =
  et_name :: string
  et_display_name :: string
  et_kind :: int
  et_auto_expansion_mode :: int
  et_entities :: "Entity list"
  et_excluded_phrases :: "string list"
  et_enable_fuzzy_extraction :: bool
  et_redact :: bool

definition EntityType0 :: EntityType where
  "EntityType0 = \<lparr>et_name = [], et_display_name = [], et_kind = 0, et_auto_expansion_mode = 0,
     et_entities = [], et_excluded_phrases = [], et_enable_fuzzy_extraction = False,
     et_redact = False\<rparr>"

definition truthy_EntityType :: "EntityType \<Rightarrow> bool" where
  "truthy_EntityType t \<longleftrightarrow>
     et_name t \<noteq> [] \<or> et_display_name t \<noteq> [] \<or> et_kind t \<noteq> 0 \<or>
     et_auto_expansion_mode t \<noteq> 0 \<or> et_entities t \<noteq> [] \<or> et_excluded_phrases t \<noteq> [] \<or>
     et_enable_fuzzy_extraction t \<or> et_redact t"

text \<open>\<^verbatim>\<open>if obj:\<close> on the optional \<^verbatim>\<open>obj\<close> argument.\<close>

definition truthy_obj :: "EntityType option \<Rightarrow> bool" where
  "truthy_obj obj = (case obj of None \<Rightarrow> False | Some t \<Rightarrow> truthy_EntityType t)"

text \<open>The object behind a true \<^verbatim>\<open>obj\<close>.\<close>

definition obj_value :: "EntityType option \<Rightarrow> EntityType" where
  "obj_value obj = (case obj of None \<Rightarrow> EntityType0 | Some t \<Rightarrow> t)"

text \<open>\<^verbatim>\<open>if not agent_id:\<close> on an optional string.\<close>

definition truthy_id :: "string option \<Rightarrow> bool" where
  "truthy_id x = (case x of None \<Rightarrow> False | Some s \<Rightarrow> s \<noteq> [])"

text \<open>Assigning \<^verbatim>\<open>None\<close> to a string field of a message clears the field.\<close>

definition str_or_empty :: "string option \<Rightarrow> string" where
  "str_or_empty x = (case x of None \<Rightarrow> [] | Some s \<Rightarrow> s)"

text \<open>
  The keyword arguments \<^verbatim>\<open>**kwargs\<close> are a list of names and values in the order of
  the call; the values are whatever the caller passes. Each is assigned with
  \<^verbatim>\<open>setattr(entity_type, key, value)\<close>, which is \<^verbatim>\<open>Message.__setattr__\<close> of proto-plus
  and no part of the repository: the wrapper is modelled for any behaviour of it. An
  assignment works on the message in place; it returns or raises, and the message may
  have changed in either case.
\<close>

type_synonym 'v setattr = "EntityType \<Rightarrow> string \<Rightarrow> 'v \<Rightarrow> (error + unit) \<times> EntityType"

text \<open>
  \<^verbatim>\<open>for key, value in kwargs.items(): setattr(entity_type, key, value)\<close>. The loop ends
  at the first assignment that raises; the message is left as that assignment and the
  earlier ones made it.
\<close>

fun set_attrs :: "'v setattr \<Rightarrow> EntityType \<Rightarrow> (string \<times> 'v) list \<Rightarrow> (error + unit) \<times> EntityType" where
  "set_attrs assign t [] = (Inr (), t)"
| "set_attrs assign t ((key, value) # kwargs) =
     (case assign t key value of
        (Inl e, t') \<Rightarrow> (Inl e, t')
      | (Inr u, t') \<Rightarrow> set_attrs assign t' kwargs)"

record CreateEntityTypeRequest =
  create_req_parent :: string
  create_req_entity_type :: EntityType
  create_req_language_code :: string

record UpdateEntityTypeRequest =
  update_req_entity_type :: EntityType
  update_req_mask :: "string list"
  update_req_language_code :: string

text \<open>The requests that reach the remote service, in the order they are sent.\<close>

datatype rpc =
    ListEntityTypes string
  | GetEntityType "string option"
  | CreateEntityType CreateEntityTypeRequest
  | UpdateEntityType UpdateEntityTypeRequest
  | DeleteEntityType "string option"

text \<open>
  The remote side, not part of the repository: \<^verbatim>\<open>ScrapiBase._set_region\<close>, which
  derives the client options from a resource id, and the answers of the generated
  client, which depend on the client options and the request. A listing answers with
  its pages.
\<close>

record remote =
  set_region :: "string option \<Rightarrow> error + string option"
  rpc_list_entity_types :: "string option \<Rightarrow> string \<Rightarrow> error + EntityType list list"
  rpc_get_entity_type :: "string option \<Rightarrow> string option \<Rightarrow> error + EntityType"
  rpc_create_entity_type :: "string option \<Rightarrow> CreateEntityTypeRequest \<Rightarrow> error + EntityType"
  rpc_update_entity_type :: "string option \<Rightarrow> UpdateEntityTypeRequest \<Rightarrow> error + EntityType"
  rpc_delete_entity_type :: "string option \<Rightarrow> string option \<Rightarrow> error + unit"

record EntityTypes =
  self_entity_id :: "string option"
  self_agent_id :: "string option"

text \<open>\<^verbatim>\<open>EntityTypes.list_entity_types\<close>: the result and the requests sent.\<close>

definition list_entity_types ::
  "remote \<Rightarrow> EntityTypes \<Rightarrow> string option \<Rightarrow> (error + EntityType list) \<times> rpc list" where
  "list_entity_types r self agent_id =
     (let agent_id = (if \<not> truthy_id agent_id then self_agent_id self else agent_id);
          parent = str_or_empty agent_id
      in case set_region r agent_id of
           Inl e \<Rightarrow> (Inl e, [])
         | Inr options \<Rightarrow>
             (case rpc_list_entity_types r options parent of
                Inl e \<Rightarrow> (Inl e, [ListEntityTypes parent])
              | Inr pages \<Rightarrow> (Inr (concat pages), [ListEntityTypes parent])))"

text \<open>\<^verbatim>\<open>EntityTypes.get_entity_type\<close>\<close>

definition get_entity_type ::
  "remote \<Rightarrow> EntityTypes \<Rightarrow> string option \<Rightarrow> (error + EntityType) \<times> rpc list" where
  "get_entity_type r self entity_id =
     (let entity_id = (if \<not> truthy_id entity_id then self_entity_id self else entity_id)
      in case set_region r entity_id of
           Inl e \<Rightarrow> (Inl e, [])
         | Inr options \<Rightarrow> (rpc_get_entity_type r options entity_id, [GetEntityType entity_id]))"

text \<open>
  \<^verbatim>\<open>EntityTypes.create_entity_type\<close>. The third component is the caller's \<^verbatim>\<open>obj\<close> as
  the call leaves it: when \<^verbatim>\<open>obj\<close> is true, \<^verbatim>\<open>entity_type\<close> is the same object and
  every assignment to it is an assignment to the caller's object.
\<close>

definition create_entity_type ::
  "remote \<Rightarrow> 'v setattr \<Rightarrow> EntityTypes \<Rightarrow> string option \<Rightarrow> EntityType option \<Rightarrow>
     string option \<Rightarrow> (string \<times> 'v) list \<Rightarrow>
     (error + EntityType) \<times> rpc list \<times> EntityType option" where
  "create_entity_type r assign self agent_id obj language_code kwargs =
     (let agent_id = (if \<not> truthy_id agent_id then self_agent_id self else agent_id);
          entity_type = (if truthy_obj obj then (obj_value obj)\<lparr>et_name := []\<rparr> else EntityType0);
          (assigned, entity_type) = set_attrs assign entity_type kwargs;
          obj = (if truthy_obj obj then Some entity_type else obj)
      in case assigned of
           Inl e \<Rightarrow> (Inl e, [], obj)
         | Inr u \<Rightarrow>
             (case set_region r agent_id of
                Inl e \<Rightarrow> (Inl e, [], obj)
              | Inr options \<Rightarrow>
                  let request = \<lparr>create_req_parent = str_or_empty agent_id,
                        create_req_entity_type = entity_type,
                        create_req_language_code =
                          (if truthy_id language_code then str_or_empty language_code else [])\<rparr>
                  in (rpc_create_entity_type r options request,
                      [CreateEntityType request], obj)))"

text \<open>
  \<^verbatim>\<open>EntityTypes.update_entity_type\<close>, in the same form. Without a true \<^verbatim>\<open>obj\<close> the
  entity type is fetched from the remote service first.
\<close>

definition update_entity_type ::
  "remote \<Rightarrow> 'v setattr \<Rightarrow> EntityTypes \<Rightarrow> string option \<Rightarrow> EntityType option \<Rightarrow>
     string option \<Rightarrow> (string \<times> 'v) list \<Rightarrow>
     (error + EntityType) \<times> rpc list \<times> EntityType option" where
  "update_entity_type r assign self entity_type_id obj language_code kwargs =
     (let entity_type_id =
            (if truthy_obj obj then entity_type_id
             else if \<not> truthy_id entity_type_id then self_entity_id self else entity_type_id);
          (fetched, sent) =
            (if truthy_obj obj then (Inr ((obj_value obj)\<lparr>et_name := str_or_empty entity_type_id\<rparr>), [])
             else get_entity_type r self entity_type_id)
      in case fetched of
           Inl e \<Rightarrow> (Inl e, sent, obj)
         | Inr entity_type \<Rightarrow>
             (let (assigned, entity_type) = set_attrs assign entity_type kwargs;
                  obj = (if truthy_obj obj then Some entity_type else obj);
                  paths = map fst kwargs
              in (case assigned of
                    Inl e \<Rightarrow> (Inl e, sent, obj)
                  | Inr u \<Rightarrow>
                      (case set_region r entity_type_id of
                         Inl e \<Rightarrow> (Inl e, sent, obj)
                       | Inr options \<Rightarrow>
                           (let request = \<lparr>update_req_entity_type = entity_type,
                                  update_req_mask = paths,
                                  update_req_language_code =
                                    (if truthy_id language_code then str_or_empty language_code
                                     else [])\<rparr>
                            in (rpc_update_entity_type r options request,
                                sent @ [UpdateEntityType request], obj))))))"

text \<open>
  \<^verbatim>\<open>EntityTypes.delete_entity_type\<close>: with a true \<^verbatim>\<open>obj\<close> the local name
  \<^verbatim>\<open>entity_id\<close> is assigned and the method ends; the client is built and called in the
  \<^verbatim>\<open>else\<close> branch only.
\<close>

definition delete_entity_type ::
  "remote \<Rightarrow> EntityTypes \<Rightarrow> string option \<Rightarrow> EntityType option \<Rightarrow> (error + unit) \<times> rpc list" where
  "delete_entity_type r self entity_id obj =
     (let entity_id = (if \<not> truthy_id entity_id then self_entity_id self else entity_id)
      in if truthy_obj obj then
           (let entity_id = Some (et_name (obj_value obj)) in (Inr (), []))
         else
           (case set_region r entity_id of
              Inl e \<Rightarrow> (Inl e, [])
            | Inr options \<Rightarrow>
                (rpc_delete_entity_type r options entity_id, [DeleteEntityType entity_id])))"

subsection \<open>The tabular reports\<close>

text \<open>
  The part of pandas that the basic report uses. A row maps column names to values; a
  \<^verbatim>\<open>DataFrame\<close> has its column names and its rows, and \<^verbatim>\<open>pd.DataFrame()\<close> has
  neither. \<^verbatim>\<open>pd.concat\<close> takes a list of objects and accepts only \<^verbatim>\<open>Series\<close> and
  \<^verbatim>\<open>DataFrame\<close> objects in it: any other element raises \<open>TypeError\<close> ("cannot
  concatenate object of type ...; only Series and DataFrame objs are valid").
  \<^verbatim>\<open>sort_values\<close> raises \<open>KeyError\<close> for a key that is no column, and else orders the
  rows by the listed columns, ascending.
\<close>

type_synonym row = "(string \<times> string) list"

record DataFrame =
  columns :: "string list"
  rows :: "row list"

datatype pdobj =
    PdDataFrame DataFrame
  | PdDict row

definition DataFrame_empty :: DataFrame where
  "DataFrame_empty = \<lparr>columns = [], rows = []\<rparr>"

fun frames_of :: "pdobj list \<Rightarrow> error + DataFrame list" where
  "frames_of [] = Inr []"
| "frames_of (PdDict d # objs) = Inl TypeError"
| "frames_of (PdDataFrame df # objs) =
     (case frames_of objs of Inl e \<Rightarrow> Inl e | Inr dfs \<Rightarrow> Inr (df # dfs))"

definition pd_concat :: "pdobj list \<Rightarrow> error + DataFrame" where
  "pd_concat objs =
     (if objs = [] then Inl ValueError
      else case frames_of objs of
             Inl e \<Rightarrow> Inl e
           | Inr dfs \<Rightarrow> Inr \<lparr>columns = remdups (concat (map columns dfs)),
                             rows = concat (map rows dfs)\<rparr>)"

definition cell :: "row \<Rightarrow> string \<Rightarrow> string" where
  "cell d key = (case map_of d key of None \<Rightarrow> [] | Some v \<Rightarrow> v)"

definition sort_values :: "string list \<Rightarrow> DataFrame \<Rightarrow> error + DataFrame" where
  "sort_values by df =
     (if list_ex (\<lambda>key. key \<notin> set (columns df)) by then Inl KeyError
      else Inr (df\<lparr>rows := sort_key (\<lambda>d. map (cell d) by) (rows df)\<rparr>))"

text \<open>
  \<^verbatim>\<open>EntityTypes.entity_type_proto_to_dataframe\<close> with \<^verbatim>\<open>mode="basic"\<close>: the two
  nested loops. The dictionary \<^verbatim>\<open>entity_type_dict\<close> is updated in place and handed to
  \<^verbatim>\<open>pd.concat\<close> as it is.
\<close>

fun synonyms_loop :: "string list \<Rightarrow> row \<Rightarrow> DataFrame \<Rightarrow> error + row \<times> DataFrame" where
  "synonyms_loop [] entity_type_dict main_df = Inr (entity_type_dict, main_df)"
| "synonyms_loop (synonym # rest) entity_type_dict main_df =
     (let entity_type_dict = AList.update ''synonyms'' synonym entity_type_dict
      in case pd_concat [PdDataFrame main_df, PdDict entity_type_dict] of
           Inl e \<Rightarrow> Inl e
         | Inr main_df \<Rightarrow> synonyms_loop rest entity_type_dict main_df)"

fun entities_loop :: "Entity list \<Rightarrow> row \<Rightarrow> DataFrame \<Rightarrow> error + row \<times> DataFrame" where
  "entities_loop [] entity_type_dict main_df = Inr (entity_type_dict, main_df)"
| "entities_loop (entity # rest) entity_type_dict main_df =
     (let entity_type_dict = AList.update ''entity_value'' (entity_value entity) entity_type_dict
      in case synonyms_loop (synonyms entity) entity_type_dict main_df of
           Inl e \<Rightarrow> Inl e
         | Inr (entity_type_dict, main_df) \<Rightarrow> entities_loop rest entity_type_dict main_df)"

definition entity_type_proto_to_dataframe_basic :: "EntityType \<Rightarrow> error + DataFrame" where
  "entity_type_proto_to_dataframe_basic obj =
     (case entities_loop (et_entities obj) [(''display_name'', et_display_name obj)]
             DataFrame_empty of
        Inl e \<Rightarrow> Inl e
      | Inr (entity_type_dict, main_df) \<Rightarrow> Inr main_df)"

text \<open>
  \<^verbatim>\<open>EntityTypes.entity_types_to_df\<close> with \<^verbatim>\<open>mode="basic"\<close>: the loop over the listed
  entity types, then the sort.
\<close>

fun entity_types_loop ::
  "string list option \<Rightarrow> EntityType list \<Rightarrow> DataFrame \<Rightarrow> error + DataFrame" where
  "entity_types_loop entity_type_subset [] main_df = Inr main_df"
| "entity_types_loop entity_type_subset (obj # rest) main_df =
     (if (case entity_type_subset of
            None \<Rightarrow> False
          | Some names \<Rightarrow> names \<noteq> [] \<and> et_display_name obj \<notin> set names)
      then entity_types_loop entity_type_subset rest main_df
      else
        (case entity_type_proto_to_dataframe_basic obj of
           Inl e \<Rightarrow> Inl e
         | Inr single_entity_df \<Rightarrow>
             (case pd_concat [PdDataFrame main_df, PdDataFrame single_entity_df] of
                Inl e \<Rightarrow> Inl e
              | Inr main_df \<Rightarrow> entity_types_loop entity_type_subset rest main_df)))"

definition entity_types_to_df_basic ::
  "remote \<Rightarrow> EntityTypes \<Rightarrow> string option \<Rightarrow> string list option \<Rightarrow>
     (error + DataFrame) \<times> rpc list" where
  "entity_types_to_df_basic r self agent_id entity_type_subset =
     (let agent_id = (if \<not> truthy_id agent_id then self_agent_id self else agent_id)
      in case list_entity_types r self agent_id of
           (Inl e, sent) \<Rightarrow> (Inl e, sent)
         | (Inr entity_types, sent) \<Rightarrow>
             (case entity_types_loop entity_type_subset entity_types DataFrame_empty of
                Inl e \<Rightarrow> (Inl e, sent)
              | Inr main_df \<Rightarrow>
                  (sort_values [''display_name'', ''entity_value''] main_df, sent)))"

section \<open>Collaborators used in the examples\<close>

text \<open>
  Modelled from the spec: \<^verbatim>\<open>BuildersCommon._match_transition_route\<close> is not among the
  sources. "At least one criterion is required, else it fails. Matching is exact
  structural equality on the specified fields": a criterion is specified when it is not
  \<^verbatim>\<open>None\<close>, and the route matches when it agrees with every specified criterion.
\<close>

definition agrees_with_criteria :: "TransitionRoute \<Rightarrow> pyval \<Rightarrow> pyval \<Rightarrow> pyval \<Rightarrow> bool" where
  "agrees_with_criteria tr target_route intent condition \<longleftrightarrow>
     (target_route = PyNone \<or> target_route = PyTransitionRoute tr) \<and>
     (intent = PyNone \<or> intent = PyStr (tr_intent tr)) \<and>
     (condition = PyNone \<or> condition = PyStr (tr_condition tr))"

definition match_transition_route_spec ::
  "TransitionRoute \<Rightarrow> pyval \<Rightarrow> pyval \<Rightarrow> pyval \<Rightarrow> error + bool" where
  "match_transition_route_spec tr target_route intent condition =
     (if target_route = PyNone \<and> intent = PyNone \<and> condition = PyNone then Inl ValueError
      else Inr (agrees_with_criteria tr target_route intent condition))"

text \<open>
  Modelled from the spec: \<^verbatim>\<open>BuildersCommon._find_unmatched_event_handlers\<close> and
  \<^verbatim>\<open>_find_unmatched_event_handlers_by_name\<close> are not among the sources. A remove
  operation takes "an exact object to remove or a set of matching criteria (... by event
  name)", "matching is exact structural equality on the specified fields; all matching
  elements are removed", and an argument is rejected "if not of the declared kind or a
  homogeneous collection of that kind". The helpers return the held handlers that stay.
\<close>

definition find_unmatched_event_handlers_spec ::
  "EventHandler list \<Rightarrow> pyval \<Rightarrow> error + EventHandler list" where
  "find_unmatched_event_handlers_spec held event_handlers =
     (case is_type_or_list_of_types event_handlers is_EventHandler of
        Inl e \<Rightarrow> Inl e
      | Inr u \<Rightarrow> Inr (filter (\<lambda>h. PyEventHandler h \<notin> set (as_list event_handlers)) held))"

definition find_unmatched_event_handlers_by_name_spec ::
  "EventHandler list \<Rightarrow> pyval \<Rightarrow> error + EventHandler list" where
  "find_unmatched_event_handlers_by_name_spec held event_names =
     (case is_type_or_list_of_types event_names is_str of
        Inl e \<Rightarrow> Inl e
      | Inr u \<Rightarrow> Inr (filter (\<lambda>h. PyStr (eh_event h) \<notin> set (as_list event_names)) held))"

text \<open>
  Modelled from the spec: the leaf builders are not among the sources. A route is built
  from an intent and a condition of which "at least one must be present".
\<close>

definition collaborators_spec :: collaborators where
  "collaborators_spec = \<lparr>
     trb_create = (\<lambda>intent condition trigger_fulfillment target_page target_flow.
       if intent = PyNone \<and> condition = PyNone then Inl ValueError
       else Inr \<lparr>tr_intent = str_of intent, tr_condition = str_of condition,
                 tr_trigger_fulfillment = Fulfillment_of trigger_fulfillment,
                 tr_target_page = str_of target_page, tr_target_flow = str_of target_flow\<rparr>),
     trb_set_fulfillment = (\<lambda>message parameter_map r.
       Inr (r\<lparr>tr_trigger_fulfillment := Fulfillment0\<lparr>ff_messages :=
              (if message = PyNone then [] else [TextMessage (List.map_filter str_opt (as_list message))])\<rparr>\<rparr>)),
     ehb_create = (\<lambda>event trigger_fulfillment target_page target_flow.
       if \<not> (truthy event \<and> is_str event) then Inl ValueError
       else Inr \<lparr>eh_event = str_of event,
                 eh_trigger_fulfillment = Fulfillment_of trigger_fulfillment,
                 eh_target_page = str_of target_page, eh_target_flow = str_of target_flow\<rparr>),
     ehb_set_fulfillment = (\<lambda>message parameter_map h.
       Inr (h\<lparr>eh_trigger_fulfillment := Fulfillment0\<lparr>ff_messages :=
              (if message = PyNone then [] else [TextMessage (List.map_filter str_opt (as_list message))])\<rparr>\<rparr>)),
     fb_build = (\<lambda>args. Inr Fulfillment0),
     match_transition_route = match_transition_route_spec,
     find_unmatched_event_handlers = find_unmatched_event_handlers_spec,
     find_unmatched_event_handlers_by_name = find_unmatched_event_handlers_by_name_spec\<rparr>"

section \<open>Calls on a builder\<close>

text \<open>
  A call of one of the methods of \<^verbatim>\<open>PageBuilder\<close> that write to \<^verbatim>\<open>proto_obj\<close>, with
  its arguments in the order of the method's signature, and the same for
  \<^verbatim>\<open>TransitionRouteGroupBuilder\<close>. A statement about every such call is a statement
  about \<open>run_page_op\<close> (\<open>run_trg_op\<close>).
\<close>

datatype page_op =
    CreateNewPage pyval pyval bool
  | SetEntryFulfillment pyval pyval pyval pyval pyval pyval pyval
  | AddParameter pyval pyval pyval pyval pyval pyval pyval pyval
  | AddTransitionRoute pyval pyval pyval pyval pyval pyval pyval pyval
  | AddEventHandler pyval pyval pyval pyval pyval pyval pyval
  | AddTransitionRouteGroup pyval
  | RemoveParameter pyval
  | RemoveTransitionRoute pyval pyval pyval
  | RemoveEventHandler pyval pyval
  | RemoveTransitionRouteGroup pyval

fun run_page_op :: "collaborators \<Rightarrow> page_op \<Rightarrow> (Page, Page) builder_method" where
  "run_page_op c (CreateNewPage dn ef ow) = create_new_page dn ef ow"
| "run_page_op c (SetEntryFulfillment m rt md wh tg rpr pm) =
     set_entry_fulfillment c m rt md wh tg rpr pm"
| "run_page_op c (AddParameter dn et ip rq dv il rd rp) = add_parameter dn et ip rq dv il rd rp"
| "run_page_op c (AddTransitionRoute trs i cd tp tf ff ar pm) =
     page_add_transition_route c trs i cd tp tf ff ar pm"
| "run_page_op c (AddEventHandler ehs ev tp tf ff ar pm) =
     add_event_handler c ehs ev tp tf ff ar pm"
| "run_page_op c (AddTransitionRouteGroup trgs) = add_transition_route_group trgs"
| "run_page_op c (RemoveParameter dn) = remove_parameter dn"
| "run_page_op c (RemoveTransitionRoute tr i cd) = page_remove_transition_route c tr i cd"
| "run_page_op c (RemoveEventHandler ehs names) = remove_event_handler c ehs names"
| "run_page_op c (RemoveTransitionRouteGroup trgs) = remove_transition_route_group trgs"

datatype trg_op =
    CreateNewTransitionRouteGroup pyval pyval bool
  | GroupAddTransitionRoute pyval pyval pyval pyval pyval pyval pyval pyval
  | GroupRemoveTransitionRoute pyval pyval pyval

fun run_trg_op ::
  "collaborators \<Rightarrow> trg_op \<Rightarrow> (TransitionRouteGroup, TransitionRouteGroup) builder_method" where
  "run_trg_op c (CreateNewTransitionRouteGroup dn trs ow) =
     create_new_transition_route_group dn trs ow"
| "run_trg_op c (GroupAddTransitionRoute trs i cd tp tf ff ar pm) =
     trg_add_transition_route c trs i cd tp tf ff ar pm"
| "run_trg_op c (GroupRemoveTransitionRoute tr i cd) = trg_remove_transition_route c tr i cd"

text \<open>The display names of the parameters in the form of the held page.\<close>

definition held_parameter_names :: "Page builder \<Rightarrow> string list" where
  "held_parameter_names self =
     (case proto_obj self of
        None \<Rightarrow> []
      | Some p \<Rightarrow> map param_display_name (parameters (page_form p)))"

text \<open>Two routes for the examples.\<close>

definition route_1 :: TransitionRoute where
  "route_1 = \<lparr>tr_intent = ''i1'', tr_condition = [], tr_trigger_fulfillment = Fulfillment0,
     tr_target_page = [], tr_target_flow = []\<rparr>"

definition route_2 :: TransitionRoute where
  "route_2 = \<lparr>tr_intent = ''i2'', tr_condition = ''c2'', tr_trigger_fulfillment = Fulfillment0,
     tr_target_page = [], tr_target_flow = []\<rparr>"

text \<open>
  The page of the spec's example: display name \<open>Collect Email\<close>, one required
  parameter \<open>email\<close> of entity type \<open>sys.email\<close> with a text prompt and no reprompt
  handlers.
\<close>

definition email_prompt :: Fulfillment where
  "email_prompt = Fulfillment0\<lparr>ff_messages := [TextMessage [''What is your email?'']]\<rparr>"

definition email_parameter :: Parameter where
  "email_parameter = \<lparr>param_display_name = ''email'', param_required = True,
     param_entity_type = ''sys.email'', param_is_list = False,
     param_fill_behavior = \<lparr>initial_prompt_fulfillment = email_prompt,
       reprompt_event_handlers = []\<rparr>,
     param_default_value = [], param_redact = False\<rparr>"

definition collect_email_page :: Page where
  "collect_email_page =
     (new_Page ''Collect Email'' Fulfillment0)\<lparr>page_form := \<lparr>parameters = [email_parameter]\<rparr>\<rparr>"

text \<open>Whether a call is a call of \<^verbatim>\<open>add_parameter\<close>.\<close>

fun is_add_parameter :: "page_op \<Rightarrow> bool" where
  "is_add_parameter (AddParameter dn et ip rq dv il rd rp) = True"
| "is_add_parameter op = False"




text \<open>
  An entity type, a wrapper object and two remote services for the examples: one whose
  every call fails, and one that lists the entity type and accepts every request.
\<close>

definition size_entity_type :: EntityType where
  "size_entity_type = EntityType0\<lparr>
     et_name := ''projects/p/locations/global/agents/a/entityTypes/e'',
     et_display_name := ''size'',
     et_entities := [\<lparr>entity_value = ''small'', synonyms = [''small'', ''tiny'']\<rparr>]\<rparr>"

definition wrapper :: EntityTypes where
  "wrapper = \<lparr>self_entity_id = None,
     self_agent_id = Some ''projects/p/locations/global/agents/a''\<rparr>"

text \<open>
  \<^verbatim>\<open>setattr(entity_type, key, None)\<close>, for keyword arguments whose values are all
  \<^verbatim>\<open>None\<close>. \<^verbatim>\<open>Message.__setattr__\<close> reads \<^verbatim>\<open>key[0]\<close> first, which raises
  \<open>IndexError\<close> for the empty name; a name that begins with an underscore is set as an
  attribute of the Python object, and the fields of the message stay as they are (the
  one such name that is not covered here is \<^verbatim>\<open>_pb\<close>, the slot that holds the message
  itself). For any other name the named field is cleared, and a name that is no field of
  the message raises \<open>AttributeError\<close>.
\<close>

definition setattr_None :: "unit setattr" where
  "setattr_None t key value =
     (if key = [] then (Inl IndexError, t)
      else if hd key = CHR ''_'' then (Inr (), t)
      else if key = ''name'' then (Inr (), t\<lparr>et_name := []\<rparr>)
      else if key = ''display_name'' then (Inr (), t\<lparr>et_display_name := []\<rparr>)
      else if key = ''kind'' then (Inr (), t\<lparr>et_kind := 0\<rparr>)
      else if key = ''auto_expansion_mode'' then (Inr (), t\<lparr>et_auto_expansion_mode := 0\<rparr>)
      else if key = ''entities'' then (Inr (), t\<lparr>et_entities := []\<rparr>)
      else if key = ''excluded_phrases'' then (Inr (), t\<lparr>et_excluded_phrases := []\<rparr>)
      else if key = ''enable_fuzzy_extraction''
        then (Inr (), t\<lparr>et_enable_fuzzy_extraction := False\<rparr>)
      else if key = ''redact'' then (Inr (), t\<lparr>et_redact := False\<rparr>)
      else (Inl AttributeError, t))"

definition remote_down :: remote where
  "remote_down = \<lparr>
     set_region = (\<lambda>resource_id. Inr None),
     rpc_list_entity_types = (\<lambda>options parent. Inl RemoteError),
     rpc_get_entity_type = (\<lambda>options name. Inl RemoteError),
     rpc_create_entity_type = (\<lambda>options request. Inl RemoteError),
     rpc_update_entity_type = (\<lambda>options request. Inl RemoteError),
     rpc_delete_entity_type = (\<lambda>options name. Inl RemoteError)\<rparr>"

definition remote_up :: remote where
  "remote_up = \<lparr>
     set_region = (\<lambda>resource_id. Inr None),
     rpc_list_entity_types = (\<lambda>options parent. Inr [[size_entity_type]]),
     rpc_get_entity_type = (\<lambda>options name. Inr size_entity_type),
     rpc_create_entity_type = (\<lambda>options request. Inr (create_req_entity_type request)),
     rpc_update_entity_type = (\<lambda>options request. Inr (update_req_entity_type request)),
     rpc_delete_entity_type = (\<lambda>options name. Inr ())\<rparr>"

section \<open>Creating a resource in a builder that holds one\<close>

lemma page_create_error_keeps:
  "fst (page_create_new_proto_obj dn ef ow self) = Inl e \<Longrightarrow>
   snd (page_create_new_proto_obj dn ef ow self) = self"
  by (auto simp: page_create_new_proto_obj_def Let_def split: if_splits option.splits)

lemma trg_create_error_keeps:
  "fst (trg_create_new_proto_obj dn trs ow self) = Inl e \<Longrightarrow>
   snd (trg_create_new_proto_obj dn trs ow self) = self"
  by (auto simp: trg_create_new_proto_obj_def Let_def split: if_splits option.splits)




section \<open>Adding and removing transition routes\<close>

lemma unmatched_routes_filter:
  "\<forall>tr\<in>set trs. \<exists>b. match_transition_route c tr t i cd = Inr b \<Longrightarrow>
   unmatched_routes c t i cd acc trs =
     Inr (acc @ filter (\<lambda>tr. match_transition_route c tr t i cd = Inr False) trs)"
proof (induction trs arbitrary: acc)
  case Nil
  then show ?case by simp
next
  case (Cons tr trs)
  then obtain b where b: "match_transition_route c tr t i cd = Inr b" by auto
  from Cons.prems have rest: "\<forall>tr\<in>set trs. \<exists>b. match_transition_route c tr t i cd = Inr b"
    by simp
  show ?case
    using b Cons.IH [OF rest] by (cases b) simp_all
qed

lemma unmatched_routes_restore:
  assumes old: "\<forall>tr\<in>set old. match_transition_route c tr t i cd = Inr False"
    and new: "\<forall>tr\<in>set added. match_transition_route c tr t i cd = Inr True"
  shows "unmatched_routes c t i cd [] (old @ added) = Inr old"
proof -
  have "\<forall>tr\<in>set (old @ added). \<exists>b. match_transition_route c tr t i cd = Inr b"
    using old new by auto
  then have "unmatched_routes c t i cd [] (old @ added) =
      Inr ([] @ filter (\<lambda>tr. match_transition_route c tr t i cd = Inr False) (old @ added))"
    by (rule unmatched_routes_filter)
  moreover have "filter (\<lambda>tr. match_transition_route c tr t i cd = Inr False) old = old"
    using old by (simp add: filter_id_conv)
  moreover have "filter (\<lambda>tr. match_transition_route c tr t i cd = Inr False) added = []"
    using new by (simp add: filter_empty_conv)
  ultimately show ?thesis by simp
qed

lemma page_add_transition_route_appends:
  assumes "page_add_transition_route c trs i0 c0 tp tf ff ar pm \<lparr>proto_obj = Some p\<rparr> = (Inr p1, self1)"
  shows "\<exists>rs. self1 = \<lparr>proto_obj = Some p1\<rparr> \<and>
           p1 = p\<lparr>page_transition_routes := page_transition_routes p @ rs\<rparr>"
  using assms
  by (auto simp: page_add_transition_route_def check_proto_obj_attr_exist_def Let_def
      split: sum.splits)

lemma trg_add_transition_route_appends:
  assumes "trg_add_transition_route c trs i0 c0 tp tf ff ar pm \<lparr>proto_obj = Some g\<rparr> = (Inr g1, self1)"
  shows "\<exists>rs. self1 = \<lparr>proto_obj = Some g1\<rparr> \<and>
           g1 = g\<lparr>trg_transition_routes := trg_transition_routes g @ rs\<rparr>"
  using assms
  by (auto simp: trg_add_transition_route_def check_proto_obj_attr_exist_def Let_def
      split: sum.splits)

lemma page_add_then_remove:
  assumes add: "page_add_transition_route c trs i0 c0 tp tf ff ar pm \<lparr>proto_obj = Some p\<rparr> = (Inr p1, self1)"
    and old: "\<forall>tr\<in>set (page_transition_routes p). match_transition_route c tr t i cd = Inr False"
    and new: "\<forall>tr\<in>set (drop (length (page_transition_routes p)) (page_transition_routes p1)).
               match_transition_route c tr t i cd = Inr True"
  shows "page_remove_transition_route c t i cd self1 = (Inr p, \<lparr>proto_obj = Some p\<rparr>)"
proof -
  from page_add_transition_route_appends [OF add] obtain rs
    where s1: "self1 = \<lparr>proto_obj = Some p1\<rparr>"
      and p1: "p1 = p\<lparr>page_transition_routes := page_transition_routes p @ rs\<rparr>"
    by blast
  have routes: "page_transition_routes p1 = page_transition_routes p @ rs"
    by (simp add: p1)
  have added: "\<forall>tr\<in>set rs. match_transition_route c tr t i cd = Inr True"
    using new by (simp add: routes)
  have loop: "unmatched_routes c t i cd [] (page_transition_routes p1) =
                Inr (page_transition_routes p)"
    by (simp only: routes) (rule unmatched_routes_restore [OF old added])
  have restored: "p1\<lparr>page_transition_routes := page_transition_routes p\<rparr> = p"
    by (simp add: p1)
  show ?thesis
    by (simp add: page_remove_transition_route_def check_proto_obj_attr_exist_def s1 loop restored)
qed

lemma trg_add_then_remove:
  assumes add: "trg_add_transition_route c trs i0 c0 tp tf ff ar pm \<lparr>proto_obj = Some g\<rparr> = (Inr g1, self1)"
    and old: "\<forall>tr\<in>set (trg_transition_routes g). match_transition_route c tr t i cd = Inr False"
    and new: "\<forall>tr\<in>set (drop (length (trg_transition_routes g)) (trg_transition_routes g1)).
               match_transition_route c tr t i cd = Inr True"
  shows "trg_remove_transition_route c t i cd self1 = (Inr g, \<lparr>proto_obj = Some g\<rparr>)"
proof -
  from trg_add_transition_route_appends [OF add] obtain rs
    where s1: "self1 = \<lparr>proto_obj = Some g1\<rparr>"
      and g1: "g1 = g\<lparr>trg_transition_routes := trg_transition_routes g @ rs\<rparr>"
    by blast
  have routes: "trg_transition_routes g1 = trg_transition_routes g @ rs"
    by (simp add: g1)
  have added: "\<forall>tr\<in>set rs. match_transition_route c tr t i cd = Inr True"
    using new by (simp add: routes)
  have loop: "unmatched_routes c t i cd [] (trg_transition_routes g1) =
                Inr (trg_transition_routes g)"
    by (simp only: routes) (rule unmatched_routes_restore [OF old added])
  have restored: "g1\<lparr>trg_transition_routes := trg_transition_routes g\<rparr> = g"
    by (simp add: g1)
  show ?thesis
    by (simp add: trg_remove_transition_route_def check_proto_obj_attr_exist_def s1 loop restored)
qed

text \<open>
  Claim C3. A builder holds a page (a transition route group) and
  \<^verbatim>\<open>add_transition_route\<close> succeeds on it, with routes given as objects or with one
  route built from the other arguments. If the criteria of a following
  \<^verbatim>\<open>remove_transition_route\<close> call (route object, intent, condition) match every route
  that the add appended and no route that was held before, then the remove call returns
  the object as it was before the add, and the builder holds exactly that object again.
  The matching is \<^verbatim>\<open>_match_transition_route\<close> of the base class, whatever it is.
\<close>

theorem add_then_remove_transition_route:
  "(page_add_transition_route c trs i0 c0 tp tf ff ar pm \<lparr>proto_obj = Some p\<rparr> = (Inr p1, pb1) \<and>
    (\<forall>tr\<in>set (page_transition_routes p). match_transition_route c tr t i cd = Inr False) \<and>
    (\<forall>tr\<in>set (drop (length (page_transition_routes p)) (page_transition_routes p1)).
        match_transition_route c tr t i cd = Inr True) \<longrightarrow>
    page_remove_transition_route c t i cd pb1 = (Inr p, \<lparr>proto_obj = Some p\<rparr>))
   \<and>
   (trg_add_transition_route c trs i0 c0 tp tf ff ar pm \<lparr>proto_obj = Some g\<rparr> = (Inr g1, gb1) \<and>
    (\<forall>tr\<in>set (trg_transition_routes g). match_transition_route c tr t i cd = Inr False) \<and>
    (\<forall>tr\<in>set (drop (length (trg_transition_routes g)) (trg_transition_routes g1)).
        match_transition_route c tr t i cd = Inr True) \<longrightarrow>
    trg_remove_transition_route c t i cd gb1 = (Inr g, \<lparr>proto_obj = Some g\<rparr>))"
proof (intro conjI impI)
  assume "page_add_transition_route c trs i0 c0 tp tf ff ar pm \<lparr>proto_obj = Some p\<rparr> = (Inr p1, pb1) \<and>
    (\<forall>tr\<in>set (page_transition_routes p). match_transition_route c tr t i cd = Inr False) \<and>
    (\<forall>tr\<in>set (drop (length (page_transition_routes p)) (page_transition_routes p1)).
        match_transition_route c tr t i cd = Inr True)"
  then show "page_remove_transition_route c t i cd pb1 = (Inr p, \<lparr>proto_obj = Some p\<rparr>)"
    by (elim conjE) (rule page_add_then_remove)
next
  assume "trg_add_transition_route c trs i0 c0 tp tf ff ar pm \<lparr>proto_obj = Some g\<rparr> = (Inr g1, gb1) \<and>
    (\<forall>tr\<in>set (trg_transition_routes g). match_transition_route c tr t i cd = Inr False) \<and>
    (\<forall>tr\<in>set (drop (length (trg_transition_routes g)) (trg_transition_routes g1)).
        match_transition_route c tr t i cd = Inr True)"
  then show "trg_remove_transition_route c t i cd gb1 = (Inr g, \<lparr>proto_obj = Some g\<rparr>)"
    by (elim conjE) (rule trg_add_then_remove)
qed

text \<open>
  The theorem at a page that holds \<open>route_1\<close>: \<open>route_2\<close> is added as an object and
  removed by its intent; and at a group that holds \<open>route_1\<close>: a route is built from
  an intent and a condition and removed by both.
\<close>

theorem add_then_remove_transition_route_witness:
  "page_remove_transition_route collaborators_spec PyNone (PyStr ''i2'') PyNone
     (snd (page_add_transition_route collaborators_spec (PyTransitionRoute route_2) PyNone PyNone
        PyNone PyNone PyNone PyNone PyNone
        \<lparr>proto_obj = Some ((new_Page ''A'' Fulfillment0)\<lparr>page_transition_routes := [route_1]\<rparr>)\<rparr>)) =
     (Inr ((new_Page ''A'' Fulfillment0)\<lparr>page_transition_routes := [route_1]\<rparr>),
      \<lparr>proto_obj = Some ((new_Page ''A'' Fulfillment0)\<lparr>page_transition_routes := [route_1]\<rparr>)\<rparr>)
   \<and> trg_remove_transition_route collaborators_spec PyNone (PyStr ''i2'') (PyStr ''c2'')
     (snd (trg_add_transition_route collaborators_spec PyNone (PyStr ''i2'') (PyStr ''c2'')
        PyNone PyNone (PyFulfillment Fulfillment0) PyNone PyNone
        \<lparr>proto_obj = Some (new_TransitionRouteGroup ''G'' [route_1])\<rparr>)) =
     (Inr (new_TransitionRouteGroup ''G'' [route_1]),
      \<lparr>proto_obj = Some (new_TransitionRouteGroup ''G'' [route_1])\<rparr>)"
proof -
  let ?p = "(new_Page ''A'' Fulfillment0)\<lparr>page_transition_routes := [route_1]\<rparr>"
  let ?p1 = "(new_Page ''A'' Fulfillment0)\<lparr>page_transition_routes := [route_1, route_2]\<rparr>"
  let ?g = "new_TransitionRouteGroup ''G'' [route_1]"
  let ?g1 = "new_TransitionRouteGroup ''G'' [route_1, route_2]"
  have m1: "match_transition_route collaborators_spec route_1 PyNone (PyStr ''i2'') cd = Inr False"
    for cd
    by (simp add: collaborators_spec_def match_transition_route_spec_def agrees_with_criteria_def route_1_def)
  have m2: "match_transition_route collaborators_spec route_2 PyNone (PyStr ''i2'') PyNone = Inr True"
    "match_transition_route collaborators_spec route_2 PyNone (PyStr ''i2'') (PyStr ''c2'') = Inr True"
    by (simp_all add: collaborators_spec_def match_transition_route_spec_def agrees_with_criteria_def route_2_def)
  have addp: "page_add_transition_route collaborators_spec (PyTransitionRoute route_2) PyNone PyNone
       PyNone PyNone PyNone PyNone PyNone \<lparr>proto_obj = Some ?p\<rparr> = (Inr ?p1, \<lparr>proto_obj = Some ?p1\<rparr>)"
    by (simp add: page_add_transition_route_def check_proto_obj_attr_exist_def routes_to_add_def
        is_type_or_list_of_types_def routes_of_def Let_def)
  have addg: "trg_add_transition_route collaborators_spec PyNone (PyStr ''i2'') (PyStr ''c2'')
       PyNone PyNone (PyFulfillment Fulfillment0) PyNone PyNone \<lparr>proto_obj = Some ?g\<rparr> =
       (Inr ?g1, \<lparr>proto_obj = Some ?g1\<rparr>)"
    by (simp add: trg_add_transition_route_def check_proto_obj_attr_exist_def routes_to_add_def
        collaborators_spec_def route_2_def new_TransitionRouteGroup_def Let_def)
  have "page_remove_transition_route collaborators_spec PyNone (PyStr ''i2'') PyNone
          \<lparr>proto_obj = Some ?p1\<rparr> = (Inr ?p, \<lparr>proto_obj = Some ?p\<rparr>)"
    using add_then_remove_transition_route [of collaborators_spec "PyTransitionRoute route_2"
        PyNone PyNone PyNone PyNone PyNone PyNone PyNone ?p ?p1 "\<lparr>proto_obj = Some ?p1\<rparr>"
        PyNone "PyStr ''i2''" PyNone] addp m1 m2
    by simp
  moreover have "trg_remove_transition_route collaborators_spec PyNone (PyStr ''i2'') (PyStr ''c2'')
          \<lparr>proto_obj = Some ?g1\<rparr> = (Inr ?g, \<lparr>proto_obj = Some ?g\<rparr>)"
    using add_then_remove_transition_route [of collaborators_spec PyNone "PyStr ''i2''"
        "PyStr ''c2''" PyNone PyNone "PyFulfillment Fulfillment0" PyNone PyNone _ _ _
        PyNone "PyStr ''i2''" "PyStr ''c2''" ?g ?g1 "\<lparr>proto_obj = Some ?g1\<rparr>"]
      addg m1 m2
    by (simp add: new_TransitionRouteGroup_def)
  ultimately show ?thesis by (simp add: addp addg)
qed

section \<open>The parameter ratio of PageStats\<close>

lemma count_parameters_fields:
  "parameters_with_event_handler_count (count_parameters ps st) =
     parameters_with_event_handler_count st +
     int (length (filter (\<lambda>p. reprompt_event_handlers (param_fill_behavior p) \<noteq> []) ps))
   \<and> parameters_count (count_parameters ps st) = parameters_count st
   \<and> parameters_ratio (count_parameters ps st) = parameters_ratio st
   \<and> page_proto_obj (count_parameters ps st) = page_proto_obj st"
  by (induction ps arbitrary: st) (simp_all add: Let_def)

text \<open>
  Claim C4. For every page, \<^verbatim>\<open>calc_parameter_stats\<close> on a new \<^verbatim>\<open>PageStats\<close> of the
  page sets the parameter count to the number of form parameters, and leaves the ratio 0
  when there is no parameter; otherwise the ratio is the number of parameters whose fill
  behaviour has a non-empty list of reprompt event handlers, divided by the parameter
  count.
\<close>

theorem parameters_ratio_of_page:
  "parameters_count (calc_parameter_stats (new_PageStats page)) =
     int (length (parameters (page_form page)))
   \<and> parameters_ratio (calc_parameter_stats (new_PageStats page)) =
     (if parameters (page_form page) = [] then 0
      else of_nat (length (filter (\<lambda>p. reprompt_event_handlers (param_fill_behavior p) \<noteq> [])
                             (parameters (page_form page)))) /
           of_nat (length (parameters (page_form page))))"
  by (simp add: calc_parameter_stats_def Let_def count_parameters_fields new_PageStats_def)

text \<open>
  The spec's example: the page \<open>Collect Email\<close> is created in an empty builder, the
  required parameter \<open>email\<close> is added with no reprompt handlers; the ratio is 0 and
  the parameter count 1.
\<close>

theorem parameters_ratio_of_page_witness:
  "fst (add_parameter (PyStr ''email'') (PyStr ''sys.email'') (PyFulfillment email_prompt)
          (PyBool True) PyNone (PyBool False) (PyBool False) PyNone
          (snd (create_new_page (PyStr ''Collect Email'') PyNone False \<lparr>proto_obj = None\<rparr>))) =
     Inr collect_email_page
   \<and> parameters_ratio (calc_parameter_stats (new_PageStats collect_email_page)) = 0
   \<and> parameters_count (calc_parameter_stats (new_PageStats collect_email_page)) = 1"
proof -
  have built: "fst (add_parameter (PyStr ''email'') (PyStr ''sys.email'') (PyFulfillment email_prompt)
          (PyBool True) PyNone (PyBool False) (PyBool False) PyNone
          (snd (create_new_page (PyStr ''Collect Email'') PyNone False \<lparr>proto_obj = None\<rparr>))) =
     Inr collect_email_page"
    by (simp add: create_new_page_def page_create_new_proto_obj_def truthy_proto_obj_def
        add_parameter_def check_proto_obj_attr_exist_def reprompt_arg_def Let_def
        collect_email_page_def email_parameter_def email_prompt_def truthy_Fulfillment_def
        Fulfillment0_def new_Page_def Page0_def)
  have form: "parameters (page_form collect_email_page) = [email_parameter]"
    by (simp add: collect_email_page_def)
  show ?thesis
    using parameters_ratio_of_page [of collect_email_page] built
    by (simp add: form email_parameter_def)
qed

section \<open>Display names of the form parameters\<close>

lemma add_parameter_names:
  assumes "add_parameter dn et ip rq dv il rd rp self = (Inr p', self')"
  shows "held_parameter_names self' = held_parameter_names self @ [str_of dn]"
  using assms
  by (simp add: add_parameter_def check_proto_obj_attr_exist_def held_parameter_names_def
      Let_def split: option.splits if_splits sum.splits) auto

lemma names_create_new_page:
  "distinct (held_parameter_names self) \<Longrightarrow>
   distinct (held_parameter_names (snd (create_new_page dn ef ow self)))"
  by (simp add: create_new_page_def page_create_new_proto_obj_def Let_def
      held_parameter_names_def new_Page_def Page0_def split: option.split)

lemma names_set_entry_fulfillment:
  "held_parameter_names (snd (set_entry_fulfillment c m rt md wh tg rpr pm self)) =
     held_parameter_names self"
  by (simp add: set_entry_fulfillment_def check_proto_obj_attr_exist_def Let_def
      held_parameter_names_def split: option.split sum.split)

lemma names_page_add_transition_route:
  "held_parameter_names (snd (page_add_transition_route c trs i cd tp tf ff ar pm self)) =
     held_parameter_names self"
  by (simp add: page_add_transition_route_def check_proto_obj_attr_exist_def Let_def
      held_parameter_names_def split: option.split sum.split)

lemma names_add_event_handler:
  "held_parameter_names (snd (add_event_handler c ehs ev tp tf ff ar pm self)) =
     held_parameter_names self"
  by (simp add: add_event_handler_def check_proto_obj_attr_exist_def Let_def
      held_parameter_names_def split: option.split sum.split)

lemma names_add_transition_route_group:
  "held_parameter_names (snd (add_transition_route_group trgs self)) =
     held_parameter_names self"
  by (simp add: add_transition_route_group_def check_proto_obj_attr_exist_def Let_def
      held_parameter_names_def split: option.split sum.split)

lemma names_remove_parameter:
  "distinct (held_parameter_names self) \<Longrightarrow>
   distinct (held_parameter_names (snd (remove_parameter dn self)))"
  by (cases "proto_obj self")
    (simp_all add: remove_parameter_def check_proto_obj_attr_exist_def Let_def
      held_parameter_names_def distinct_map_filter split: sum.split)

lemma names_page_remove_transition_route:
  "held_parameter_names (snd (page_remove_transition_route c tr i cd self)) =
     held_parameter_names self"
  by (simp add: page_remove_transition_route_def check_proto_obj_attr_exist_def Let_def
      held_parameter_names_def split: option.split sum.split)

lemma names_remove_event_handler:
  "held_parameter_names (snd (remove_event_handler c ehs names self)) =
     held_parameter_names self"
  by (simp add: remove_event_handler_def check_proto_obj_attr_exist_def Let_def
      held_parameter_names_def split: option.split sum.split)

lemma names_remove_transition_route_group:
  "held_parameter_names (snd (remove_transition_route_group trgs self)) =
     held_parameter_names self"
  by (simp add: remove_transition_route_group_def check_proto_obj_attr_exist_def Let_def
      held_parameter_names_def split: option.split sum.split)

lemma other_ops_distinct:
  assumes "\<not> is_add_parameter op" and "distinct (held_parameter_names self)"
  shows "distinct (held_parameter_names (snd (run_page_op c op self)))"
  using assms
  by (cases op)
    (simp_all add: names_create_new_page names_set_entry_fulfillment
      names_page_add_transition_route names_add_event_handler names_add_transition_route_group
      names_remove_parameter names_page_remove_transition_route names_remove_event_handler
      names_remove_transition_route_group)

text \<open>
  Claim C5, as amended. \<^verbatim>\<open>add_parameter\<close> does not look at the parameters already in
  the form: a successful call appends one parameter with the given display name, so the
  display names of the form are pairwise different after the call exactly when they
  were before and the given name is not among them. Every other call on the builder
  keeps them pairwise different.
\<close>

theorem parameter_names_unique_when_fresh:
  "(add_parameter dn et ip rq dv il rd rp self = (Inr p', self') \<longrightarrow>
      held_parameter_names self' = held_parameter_names self @ [str_of dn] \<and>
      (distinct (held_parameter_names self') \<longleftrightarrow>
         distinct (held_parameter_names self) \<and> str_of dn \<notin> set (held_parameter_names self)))
   \<and> (\<not> is_add_parameter op \<and> distinct (held_parameter_names pb) \<longrightarrow>
      distinct (held_parameter_names (snd (run_page_op c op pb))))"
proof (intro conjI impI)
  assume add: "add_parameter dn et ip rq dv il rd rp self = (Inr p', self')"
  show names: "held_parameter_names self' = held_parameter_names self @ [str_of dn]"
    using add by (rule add_parameter_names)
  show "distinct (held_parameter_names self') \<longleftrightarrow>
         distinct (held_parameter_names self) \<and> str_of dn \<notin> set (held_parameter_names self)"
    by (auto simp: names)
next
  assume "\<not> is_add_parameter op \<and> distinct (held_parameter_names pb)"
  then show "distinct (held_parameter_names (snd (run_page_op c op pb)))"
    by (simp add: other_ops_distinct)
qed

text \<open>
  The theorem at the page \<open>Collect Email\<close>: the parameter \<open>email\<close> is added to the
  empty form, and removed again from the form that holds it.
\<close>

theorem parameter_names_unique_when_fresh_witness:
  "held_parameter_names (snd (add_parameter (PyStr ''email'') (PyStr ''sys.email'')
       (PyFulfillment email_prompt) (PyBool True) PyNone (PyBool False) (PyBool False) PyNone
       \<lparr>proto_obj = Some (new_Page ''Collect Email'' Fulfillment0)\<rparr>)) = [''email'']
   \<and> distinct (held_parameter_names (snd (remove_parameter (PyStr ''email'')
       \<lparr>proto_obj = Some collect_email_page\<rparr>)))"
proof -
  have add: "add_parameter (PyStr ''email'') (PyStr ''sys.email'')
       (PyFulfillment email_prompt) (PyBool True) PyNone (PyBool False) (PyBool False) PyNone
       \<lparr>proto_obj = Some (new_Page ''Collect Email'' Fulfillment0)\<rparr> =
       (Inr collect_email_page, \<lparr>proto_obj = Some collect_email_page\<rparr>)"
    by (simp add: add_parameter_def check_proto_obj_attr_exist_def reprompt_arg_def Let_def
        collect_email_page_def email_parameter_def email_prompt_def truthy_Fulfillment_def
        Fulfillment0_def new_Page_def Page0_def)
  have d: "distinct (held_parameter_names \<lparr>proto_obj = Some collect_email_page\<rparr>)"
    by (simp add: held_parameter_names_def collect_email_page_def)
  have e: "held_parameter_names \<lparr>proto_obj = Some (new_Page ''Collect Email'' Fulfillment0)\<rparr> = []"
    by (simp add: held_parameter_names_def new_Page_def Page0_def)
  show ?thesis
    using parameter_names_unique_when_fresh [of "PyStr ''email''" "PyStr ''sys.email''"
        "PyFulfillment email_prompt" "PyBool True" PyNone "PyBool False" "PyBool False" PyNone
        "\<lparr>proto_obj = Some (new_Page ''Collect Email'' Fulfillment0)\<rparr>" collect_email_page
        "\<lparr>proto_obj = Some collect_email_page\<rparr>" "RemoveParameter (PyStr ''email'')"
        "\<lparr>proto_obj = Some collect_email_page\<rparr>" collaborators_spec] add d e
    by simp
qed

text \<open>
  Claim C5 as stated fails: the form holds the parameter \<open>email\<close>, a second
  \<^verbatim>\<open>add_parameter\<close> call with the same display name succeeds, and the form holds two
  parameters of that name.
\<close>

theorem add_parameter_twice_same_name:
  "\<not> isl (fst (add_parameter (PyStr ''email'') (PyStr ''sys.email'')
       (PyFulfillment email_prompt) (PyBool True) PyNone (PyBool False) (PyBool False) PyNone
       \<lparr>proto_obj = Some collect_email_page\<rparr>))
   \<and> held_parameter_names (snd (add_parameter (PyStr ''email'') (PyStr ''sys.email'')
       (PyFulfillment email_prompt) (PyBool True) PyNone (PyBool False) (PyBool False) PyNone
       \<lparr>proto_obj = Some collect_email_page\<rparr>)) = [''email'', ''email'']
   \<and> held_parameter_names \<lparr>proto_obj = Some collect_email_page\<rparr> = [''email'']"
  by (simp add: add_parameter_def check_proto_obj_attr_exist_def reprompt_arg_def Let_def
      collect_email_page_def email_parameter_def email_prompt_def truthy_Fulfillment_def
      Fulfillment0_def held_parameter_names_def)

section \<open>Removal without a criterion\<close>

text \<open>
  \<^verbatim>\<open>remove_event_handler\<close> and \<^verbatim>\<open>remove_parameter\<close> check for a criterion themselves
  and raise before they write; \<^verbatim>\<open>remove_transition_route\<close> leaves the check to
  \<^verbatim>\<open>_match_transition_route\<close>, which it calls once for every held route. With the
  helper as the spec describes it, a call without a criterion fails when a route is held.
\<close>

lemma remove_event_handler_no_criteria:
  "remove_event_handler c PyNone PyNone \<lparr>proto_obj = Some p\<rparr> =
     (Inl UserWarning, \<lparr>proto_obj = Some p\<rparr>)"
  by (simp add: remove_event_handler_def check_proto_obj_attr_exist_def)

lemma remove_parameter_no_criteria:
  "\<not> truthy dn \<Longrightarrow>
   remove_parameter dn \<lparr>proto_obj = Some p\<rparr> = (Inl ValueError, \<lparr>proto_obj = Some p\<rparr>)"
  by (simp add: remove_parameter_def check_proto_obj_attr_exist_def)

lemma remove_transition_route_no_criteria_nonempty:
  "page_transition_routes p \<noteq> [] \<Longrightarrow>
   page_remove_transition_route collaborators_spec PyNone PyNone PyNone \<lparr>proto_obj = Some p\<rparr> =
     (Inl ValueError, \<lparr>proto_obj = Some p\<rparr>)"
  by (cases "page_transition_routes p")
    (simp_all add: page_remove_transition_route_def check_proto_obj_attr_exist_def
      collaborators_spec_def match_transition_route_spec_def agrees_with_criteria_def)

text \<open>
  Claim C6 at its failing input. The held page (the held group) has no transition
  route, and \<^verbatim>\<open>remove_transition_route\<close> is called with no route object, no intent and
  no condition. The loop body never runs, \<^verbatim>\<open>_match_transition_route\<close> is never
  called, and the call returns the held object without any error, whatever the helper
  would do.
\<close>

theorem remove_transition_route_no_criteria_no_routes:
  "page_remove_transition_route c PyNone PyNone PyNone
     \<lparr>proto_obj = Some (p\<lparr>page_transition_routes := []\<rparr>)\<rparr> =
     (Inr (p\<lparr>page_transition_routes := []\<rparr>),
      \<lparr>proto_obj = Some (p\<lparr>page_transition_routes := []\<rparr>)\<rparr>)
   \<and> trg_remove_transition_route c PyNone PyNone PyNone
     \<lparr>proto_obj = Some (g\<lparr>trg_transition_routes := []\<rparr>)\<rparr> =
     (Inr (g\<lparr>trg_transition_routes := []\<rparr>),
      \<lparr>proto_obj = Some (g\<lparr>trg_transition_routes := []\<rparr>)\<rparr>)"
  by (simp add: page_remove_transition_route_def trg_remove_transition_route_def
      check_proto_obj_attr_exist_def Let_def)

section \<open>Removal by criteria\<close>












section \<open>The state after a failing call\<close>

lemma keeps_set_entry_fulfillment:
  "isl (fst (set_entry_fulfillment c m rt md wh tg rpr pm self)) \<longrightarrow>
   snd (set_entry_fulfillment c m rt md wh tg rpr pm self) = self"
  by (simp add: set_entry_fulfillment_def check_proto_obj_attr_exist_def Let_def
      split: option.split sum.split)

lemma keeps_add_parameter:
  "isl (fst (add_parameter dn et ip rq dv il rd rp self)) \<longrightarrow>
   snd (add_parameter dn et ip rq dv il rd rp self) = self"
  by (simp add: add_parameter_def check_proto_obj_attr_exist_def Let_def
      split: option.split sum.split)

lemma keeps_page_add_transition_route:
  "isl (fst (page_add_transition_route c trs i cd tp tf ff ar pm self)) \<longrightarrow>
   snd (page_add_transition_route c trs i cd tp tf ff ar pm self) = self"
  by (simp add: page_add_transition_route_def check_proto_obj_attr_exist_def Let_def
      split: option.split sum.split)

lemma keeps_add_event_handler:
  "isl (fst (add_event_handler c ehs ev tp tf ff ar pm self)) \<longrightarrow>
   snd (add_event_handler c ehs ev tp tf ff ar pm self) = self"
  by (simp add: add_event_handler_def check_proto_obj_attr_exist_def Let_def
      split: option.split sum.split)

lemma keeps_add_transition_route_group:
  "isl (fst (add_transition_route_group trgs self)) \<longrightarrow>
   snd (add_transition_route_group trgs self) = self"
  by (simp add: add_transition_route_group_def check_proto_obj_attr_exist_def Let_def
      split: option.split sum.split)

lemma keeps_remove_parameter:
  "isl (fst (remove_parameter dn self)) \<longrightarrow> snd (remove_parameter dn self) = self"
  by (simp add: remove_parameter_def check_proto_obj_attr_exist_def Let_def
      split: option.split sum.split)

lemma keeps_page_remove_transition_route:
  "isl (fst (page_remove_transition_route c tr i cd self)) \<longrightarrow>
   snd (page_remove_transition_route c tr i cd self) = self"
  by (simp add: page_remove_transition_route_def check_proto_obj_attr_exist_def Let_def
      split: option.split sum.split)

lemma keeps_remove_event_handler:
  "isl (fst (remove_event_handler c ehs names self)) \<longrightarrow>
   snd (remove_event_handler c ehs names self) = self"
  by (simp add: remove_event_handler_def check_proto_obj_attr_exist_def Let_def
      split: option.split sum.split)

lemma keeps_remove_transition_route_group:
  "isl (fst (remove_transition_route_group trgs self)) \<longrightarrow>
   snd (remove_transition_route_group trgs self) = self"
  by (simp add: remove_transition_route_group_def check_proto_obj_attr_exist_def Let_def
      split: option.split sum.split)

lemma keeps_trg_add_transition_route:
  "isl (fst (trg_add_transition_route c trs i cd tp tf ff ar pm self)) \<longrightarrow>
   snd (trg_add_transition_route c trs i cd tp tf ff ar pm self) = self"
  by (simp add: trg_add_transition_route_def check_proto_obj_attr_exist_def Let_def
      split: option.split sum.split)

lemma keeps_trg_remove_transition_route:
  "isl (fst (trg_remove_transition_route c tr i cd self)) \<longrightarrow>
   snd (trg_remove_transition_route c tr i cd self) = self"
  by (simp add: trg_remove_transition_route_def check_proto_obj_attr_exist_def Let_def
      split: option.split sum.split)

lemma keeps_run_page_op:
  "isl (fst (run_page_op c op self)) \<Longrightarrow> snd (run_page_op c op self) = self"
proof (cases op)
  case (CreateNewPage dn ef ow)
  assume "isl (fst (run_page_op c op self))"
  then obtain e where "fst (page_create_new_proto_obj dn ef ow self) = Inl e"
    by (auto simp: CreateNewPage create_new_page_def isl_def)
  then show ?thesis
    by (simp add: CreateNewPage create_new_page_def page_create_error_keeps)
qed (simp_all add: keeps_set_entry_fulfillment keeps_add_parameter
    keeps_page_add_transition_route keeps_add_event_handler keeps_add_transition_route_group
    keeps_remove_parameter keeps_page_remove_transition_route keeps_remove_event_handler
    keeps_remove_transition_route_group)

lemma keeps_run_trg_op:
  "isl (fst (run_trg_op c op self)) \<Longrightarrow> snd (run_trg_op c op self) = self"
proof (cases op)
  case (CreateNewTransitionRouteGroup dn trs ow)
  assume "isl (fst (run_trg_op c op self))"
  then obtain e where "fst (trg_create_new_proto_obj dn trs ow self) = Inl e"
    by (auto simp: CreateNewTransitionRouteGroup create_new_transition_route_group_def isl_def)
  then show ?thesis
    by (simp add: CreateNewTransitionRouteGroup create_new_transition_route_group_def
        trg_create_error_keeps)
qed (simp_all add: keeps_trg_add_transition_route keeps_trg_remove_transition_route)

lemma create_entity_type_obj:
  "snd (snd (create_entity_type r assign self agent_id obj lang kwargs)) =
     (if truthy_obj obj
      then Some (snd (set_attrs assign ((obj_value obj)\<lparr>et_name := []\<rparr>) kwargs))
      else obj)"
  by (simp add: create_entity_type_def Let_def split_beta split: sum.split)

lemma update_entity_type_obj:
  "snd (snd (update_entity_type r assign self entity_type_id obj lang kwargs)) =
     (if truthy_obj obj
      then Some (snd (set_attrs assign
                        ((obj_value obj)\<lparr>et_name := str_or_empty entity_type_id\<rparr>) kwargs))
      else obj)"
  by (simp add: update_entity_type_def Let_def split_beta split: sum.split)

text \<open>
  Claim C2, as amended. Every call on a \<^verbatim>\<open>PageBuilder\<close> or a
  \<^verbatim>\<open>TransitionRouteGroupBuilder\<close> that raises leaves \<^verbatim>\<open>proto_obj\<close> exactly as it
  was: in the builders validation precedes the write. The remote wrappers
  \<^verbatim>\<open>create_entity_type\<close> and \<^verbatim>\<open>update_entity_type\<close>, given an object that
  \<^verbatim>\<open>if obj\<close> accepts, write to that object before anything can fail: its name is
  cleared (create) or set to the target id (update), and the keyword arguments are
  assigned to it in order until one of the assignments raises. Whatever the outcome of
  the call, the caller's object is left as the name assignment and this loop made it,
  the effect of a raising assignment included. An \<^verbatim>\<open>obj\<close> that \<^verbatim>\<open>if obj\<close> rejects is
  left as it was.
\<close>

theorem failure_leaves_builder_unchanged:
  "(isl (fst (run_page_op c op pb)) \<longrightarrow> snd (run_page_op c op pb) = pb)
   \<and> (isl (fst (run_trg_op c gop gb)) \<longrightarrow> snd (run_trg_op c gop gb) = gb)
   \<and> (truthy_obj obj \<longrightarrow>
        snd (snd (create_entity_type r assign self agent_id obj lang kwargs)) =
          Some (snd (set_attrs assign ((obj_value obj)\<lparr>et_name := []\<rparr>) kwargs)) \<and>
        snd (snd (update_entity_type r assign self entity_type_id obj lang kwargs)) =
          Some (snd (set_attrs assign
                       ((obj_value obj)\<lparr>et_name := str_or_empty entity_type_id\<rparr>) kwargs)))
   \<and> (\<not> truthy_obj obj \<longrightarrow>
        snd (snd (create_entity_type r assign self agent_id obj lang kwargs)) = obj \<and>
        snd (snd (update_entity_type r assign self entity_type_id obj lang kwargs)) = obj)"
  by (simp add: keeps_run_page_op keeps_run_trg_op create_entity_type_obj
      update_entity_type_obj)

text \<open>
  The theorem at a rejected \<^verbatim>\<open>add_parameter\<close> call, at a \<^verbatim>\<open>remove_transition_route\<close>
  call without criteria on a group that holds a route, and at a \<^verbatim>\<open>create_entity_type\<close>
  call whose request the remote service fails.
\<close>

theorem failure_leaves_builder_unchanged_witness:
  "run_page_op collaborators_spec
       (AddParameter (PyStr []) (PyStr ''sys.email'') (PyFulfillment email_prompt) (PyBool True)
          PyNone (PyBool False) (PyBool False) PyNone)
       \<lparr>proto_obj = Some collect_email_page\<rparr> =
     (Inl ValueError, \<lparr>proto_obj = Some collect_email_page\<rparr>)
   \<and> run_trg_op collaborators_spec (GroupRemoveTransitionRoute PyNone PyNone PyNone)
       \<lparr>proto_obj = Some (new_TransitionRouteGroup ''G'' [route_1])\<rparr> =
     (Inl ValueError, \<lparr>proto_obj = Some (new_TransitionRouteGroup ''G'' [route_1])\<rparr>)
   \<and> create_entity_type remote_down setattr_None wrapper None (Some size_entity_type) None [] =
     (Inl RemoteError,
      [CreateEntityType \<lparr>create_req_parent = ''projects/p/locations/global/agents/a'',
          create_req_entity_type = size_entity_type\<lparr>et_name := []\<rparr>,
          create_req_language_code = []\<rparr>],
      Some (size_entity_type\<lparr>et_name := []\<rparr>))
   \<and> snd (snd (update_entity_type remote_down setattr_None wrapper (Some ''e2'') None None [])) =
       None"
proof -
  have t: "truthy_obj (Some size_entity_type)"
    by (simp add: truthy_obj_def truthy_EntityType_def size_entity_type_def)
  have n: "\<not> truthy_obj None"
    by (simp add: truthy_obj_def)
  have a: "fst (run_page_op collaborators_spec
       (AddParameter (PyStr []) (PyStr ''sys.email'') (PyFulfillment email_prompt) (PyBool True)
          PyNone (PyBool False) (PyBool False) PyNone)
       \<lparr>proto_obj = Some collect_email_page\<rparr>) = Inl ValueError"
    by (simp add: add_parameter_def check_proto_obj_attr_exist_def)
  have b: "fst (run_trg_op collaborators_spec (GroupRemoveTransitionRoute PyNone PyNone PyNone)
       \<lparr>proto_obj = Some (new_TransitionRouteGroup ''G'' [route_1])\<rparr>) = Inl ValueError"
    by (simp add: trg_remove_transition_route_def check_proto_obj_attr_exist_def
        new_TransitionRouteGroup_def TransitionRouteGroup0_def collaborators_spec_def
        match_transition_route_spec_def)
  have c: "fst (create_entity_type remote_down setattr_None wrapper None
                  (Some size_entity_type) None []) = Inl RemoteError"
    "fst (snd (create_entity_type remote_down setattr_None wrapper None
                 (Some size_entity_type) None [])) =
       [CreateEntityType \<lparr>create_req_parent = ''projects/p/locations/global/agents/a'',
          create_req_entity_type = size_entity_type\<lparr>et_name := []\<rparr>,
          create_req_language_code = []\<rparr>]"
    by (simp_all add: create_entity_type_def t remote_down_def wrapper_def truthy_id_def
        str_or_empty_def obj_value_def Let_def)
  show ?thesis
    using failure_leaves_builder_unchanged [of collaborators_spec
        "AddParameter (PyStr []) (PyStr ''sys.email'') (PyFulfillment email_prompt) (PyBool True)
          PyNone (PyBool False) (PyBool False) PyNone"
        "\<lparr>proto_obj = Some collect_email_page\<rparr>"
        "GroupRemoveTransitionRoute PyNone PyNone PyNone"
        "\<lparr>proto_obj = Some (new_TransitionRouteGroup ''G'' [route_1])\<rparr>"
        "Some size_entity_type" remote_down setattr_None wrapper None None "[]" None]
      failure_leaves_builder_unchanged [of collaborators_spec
        "AddParameter (PyStr []) (PyStr ''sys.email'') (PyFulfillment email_prompt) (PyBool True)
          PyNone (PyBool False) (PyBool False) PyNone"
        "\<lparr>proto_obj = Some collect_email_page\<rparr>"
        "GroupRemoveTransitionRoute PyNone PyNone PyNone"
        "\<lparr>proto_obj = Some (new_TransitionRouteGroup ''G'' [route_1])\<rparr>"
        None remote_down setattr_None wrapper None None "[]" "Some ''e2''"]
      t n a b c
    by (simp add: prod_eq_iff obj_value_def)
qed

text \<open>
  Claim C2 as stated fails for the remote wrappers. The remote call of
  \<^verbatim>\<open>create_entity_type\<close> fails, and the caller's object has lost its name. In the
  \<^verbatim>\<open>update_entity_type\<close> call the keyword arguments are \<^verbatim>\<open>display_name=None\<close> and
  \<^verbatim>\<open>colour=None\<close>; the second is no field of the message, the call raises before any
  request is sent, and the caller's object has the new name and has lost its display
  name.
\<close>

theorem failed_remote_call_changes_obj:
  "create_entity_type remote_down setattr_None wrapper None (Some size_entity_type) None [] =
     (Inl RemoteError,
      [CreateEntityType \<lparr>create_req_parent = ''projects/p/locations/global/agents/a'',
          create_req_entity_type = size_entity_type\<lparr>et_name := []\<rparr>,
          create_req_language_code = []\<rparr>],
      Some (size_entity_type\<lparr>et_name := []\<rparr>))
   \<and> size_entity_type\<lparr>et_name := []\<rparr> \<noteq> size_entity_type
   \<and> update_entity_type remote_up setattr_None wrapper (Some ''e2'') (Some size_entity_type) None
       [(''display_name'', ()), (''colour'', ())] =
     (Inl AttributeError, [],
      Some (size_entity_type\<lparr>et_name := ''e2'', et_display_name := []\<rparr>))
   \<and> size_entity_type\<lparr>et_name := ''e2'', et_display_name := []\<rparr> \<noteq> size_entity_type"
  by (simp add: create_entity_type_def update_entity_type_def truthy_obj_def
      truthy_EntityType_def size_entity_type_def remote_down_def remote_up_def wrapper_def
      truthy_id_def str_or_empty_def obj_value_def Let_def EntityType0_def setattr_None_def)

section \<open>The update request\<close>

lemma set_attrs_keeps_name:
  assumes frame: "\<forall>t key v. key \<noteq> ''name'' \<longrightarrow> et_name (snd (assign t key v)) = et_name t"
    and keys: "''name'' \<notin> set (map fst kwargs)"
  shows "et_name (snd (set_attrs assign t kwargs)) = et_name t"
  using keys
proof (induction kwargs arbitrary: t)
  case Nil
  then show ?case by simp
next
  case (Cons kv kwargs)
  obtain key v where kv: "kv = (key, v)" by (cases kv)
  from Cons.prems have key: "key \<noteq> ''name''" and rest: "''name'' \<notin> set (map fst kwargs)"
    by (auto simp: kv)
  obtain res t' where a: "assign t key v = (res, t')" by (cases "assign t key v")
  have t': "et_name t' = et_name t"
    using frame key a by (metis snd_conv)
  show ?case
  proof (cases res)
    case (Inl e)
    then show ?thesis by (simp add: kv a t')
  next
    case (Inr u)
    then show ?thesis using Cons.IH [OF rest, of t'] by (simp add: kv a t')
  qed
qed

lemma get_entity_type_result:
  "get_entity_type r self entity_id =
     (let entity_id = (if \<not> truthy_id entity_id then self_entity_id self else entity_id)
      in case set_region r entity_id of
           Inl e \<Rightarrow> (Inl e, [])
         | Inr options \<Rightarrow> (rpc_get_entity_type r options entity_id, [GetEntityType entity_id]))"
  by (simp add: get_entity_type_def)

lemma get_entity_type_sent:
  "UpdateEntityType request \<notin> set (snd (get_entity_type r self entity_id))"
  by (simp add: get_entity_type_def Let_def split: sum.split)

lemma update_entity_type_with_obj:
  assumes "truthy_obj obj"
  shows "update_entity_type r assign self entity_type_id obj lang kwargs =
     (case fst (set_attrs assign ((obj_value obj)\<lparr>et_name := str_or_empty entity_type_id\<rparr>)
                  kwargs) of
        Inl e \<Rightarrow>
          (Inl e, [],
           Some (snd (set_attrs assign
                        ((obj_value obj)\<lparr>et_name := str_or_empty entity_type_id\<rparr>) kwargs)))
      | Inr u \<Rightarrow>
          (case set_region r entity_type_id of
             Inl e \<Rightarrow>
               (Inl e, [],
                Some (snd (set_attrs assign
                             ((obj_value obj)\<lparr>et_name := str_or_empty entity_type_id\<rparr>) kwargs)))
           | Inr options \<Rightarrow>
               (rpc_update_entity_type r options \<lparr>
                  update_req_entity_type =
                    snd (set_attrs assign
                           ((obj_value obj)\<lparr>et_name := str_or_empty entity_type_id\<rparr>) kwargs),
                  update_req_mask = map fst kwargs,
                  update_req_language_code =
                    (if truthy_id lang then str_or_empty lang else [])\<rparr>,
                [UpdateEntityType \<lparr>
                  update_req_entity_type =
                    snd (set_attrs assign
                           ((obj_value obj)\<lparr>et_name := str_or_empty entity_type_id\<rparr>) kwargs),
                  update_req_mask = map fst kwargs,
                  update_req_language_code =
                    (if truthy_id lang then str_or_empty lang else [])\<rparr>],
                Some (snd (set_attrs assign
                             ((obj_value obj)\<lparr>et_name := str_or_empty entity_type_id\<rparr>)
                             kwargs)))))"
  using assms
  by (simp add: update_entity_type_def Let_def split_beta split: sum.split)

lemma update_entity_type_without_obj:
  assumes "\<not> truthy_obj obj"
  shows "update_entity_type r assign self entity_type_id obj lang kwargs =
     (let entity_type_id =
            (if \<not> truthy_id entity_type_id then self_entity_id self else entity_type_id)
      in case get_entity_type r self entity_type_id of
           (Inl e, sent) \<Rightarrow> (Inl e, sent, obj)
         | (Inr fetched, sent) \<Rightarrow>
             (case fst (set_attrs assign fetched kwargs) of
                Inl e \<Rightarrow> (Inl e, sent, obj)
              | Inr u \<Rightarrow>
                  (case set_region r entity_type_id of
                     Inl e \<Rightarrow> (Inl e, sent, obj)
                   | Inr options \<Rightarrow>
                       (rpc_update_entity_type r options \<lparr>
                          update_req_entity_type = snd (set_attrs assign fetched kwargs),
                          update_req_mask = map fst kwargs,
                          update_req_language_code =
                            (if truthy_id lang then str_or_empty lang else [])\<rparr>,
                        sent @ [UpdateEntityType \<lparr>
                          update_req_entity_type = snd (set_attrs assign fetched kwargs),
                          update_req_mask = map fst kwargs,
                          update_req_language_code =
                            (if truthy_id lang then str_or_empty lang else [])\<rparr>],
                        obj))))"
  using assms
  by (simp add: update_entity_type_def Let_def split_beta split: sum.split prod.split)

lemma update_entity_type_mask_with_obj:
  assumes obj: "truthy_obj obj"
    and sent: "UpdateEntityType request \<in>
      set (fst (snd (update_entity_type r assign self entity_type_id obj lang kwargs)))"
  shows "update_req_mask request = map fst kwargs \<and>
         update_req_entity_type request =
           snd (set_attrs assign ((obj_value obj)\<lparr>et_name := str_or_empty entity_type_id\<rparr>)
                  kwargs)"
proof (cases "fst (set_attrs assign ((obj_value obj)\<lparr>et_name := str_or_empty entity_type_id\<rparr>)
                     kwargs)")
  case (Inl e)
  with sent show ?thesis by (simp add: update_entity_type_with_obj [OF obj])
next
  case assigned: (Inr u)
  show ?thesis
  proof (cases "set_region r entity_type_id")
    case (Inl e)
    with sent assigned show ?thesis by (simp add: update_entity_type_with_obj [OF obj])
  next
    case (Inr options)
    with sent assigned show ?thesis by (auto simp: update_entity_type_with_obj [OF obj])
  qed
qed

lemma update_entity_type_mask_without_obj:
  assumes obj: "\<not> truthy_obj obj"
    and sent: "UpdateEntityType request \<in>
      set (fst (snd (update_entity_type r assign self entity_type_id obj lang kwargs)))"
  shows "update_req_mask request = map fst kwargs"
proof -
  let ?id = "if \<not> truthy_id entity_type_id then self_entity_id self else entity_type_id"
  obtain res sent0 where g: "get_entity_type r self ?id = (res, sent0)"
    by (cases "get_entity_type r self ?id")
  have ns: "UpdateEntityType request \<notin> set sent0"
    using get_entity_type_sent [of request r self ?id] by (simp add: g)
  show ?thesis
  proof (cases res)
    case (Inl e)
    with sent g ns show ?thesis
      by (simp add: update_entity_type_without_obj [OF obj] Let_def)
  next
    case fetched: (Inr t)
    show ?thesis
    proof (cases "fst (set_attrs assign t kwargs)")
      case (Inl e)
      with sent g ns fetched show ?thesis
        by (simp add: update_entity_type_without_obj [OF obj] Let_def)
    next
      case assigned: (Inr u)
      show ?thesis
      proof (cases "set_region r ?id")
        case (Inl e)
        with sent g ns fetched assigned show ?thesis
          by (simp add: update_entity_type_without_obj [OF obj] Let_def)
      next
        case (Inr options)
        with sent g ns fetched assigned show ?thesis
          by (auto simp: update_entity_type_without_obj [OF obj] Let_def)
      qed
    qed
  qed
qed

lemma update_entity_type_fetches:
  assumes obj: "\<not> truthy_obj obj"
    and region: "set_region r (if \<not> truthy_id entity_type_id then self_entity_id self
                              else entity_type_id) = Inr options"
    and fetched: "rpc_get_entity_type r options
                    (if \<not> truthy_id entity_type_id then self_entity_id self
                     else entity_type_id) = Inr fetched"
    and assigned: "fst (set_attrs assign fetched kwargs) = Inr ()"
  shows "update_entity_type r assign self entity_type_id obj lang kwargs =
     (rpc_update_entity_type r options \<lparr>
        update_req_entity_type = snd (set_attrs assign fetched kwargs),
        update_req_mask = map fst kwargs,
        update_req_language_code = (if truthy_id lang then str_or_empty lang else [])\<rparr>,
      [GetEntityType (if \<not> truthy_id entity_type_id then self_entity_id self
                      else entity_type_id),
       UpdateEntityType \<lparr>
        update_req_entity_type = snd (set_attrs assign fetched kwargs),
        update_req_mask = map fst kwargs,
        update_req_language_code = (if truthy_id lang then str_or_empty lang else [])\<rparr>],
      obj)"
proof -
  let ?id = "if \<not> truthy_id entity_type_id then self_entity_id self else entity_type_id"
  have idem: "(if \<not> truthy_id ?id then self_entity_id self else ?id) = ?id"
    by simp
  have g: "get_entity_type r self ?id = (Inr fetched, [GetEntityType ?id])"
    unfolding get_entity_type_result Let_def idem using region fetched by simp
  show ?thesis
    unfolding update_entity_type_without_obj [OF obj] Let_def g
    using region assigned by simp
qed

text \<open>
  Claim C9, as amended. Every update request that \<^verbatim>\<open>update_entity_type\<close> sends has as
  its field mask the names of the keyword arguments, in their order. When the supplied
  object is one that \<^verbatim>\<open>if obj\<close> accepts (at least one field is not at its default), its
  name is set to \<^verbatim>\<open>entity_type_id\<close>, the keyword arguments are assigned to it, and the
  request carries the object so made; if no assignment raises and \<^verbatim>\<open>_set_region\<close>
  succeeds, this request is the only one sent. If assignments to other fields leave the
  name alone and \<^verbatim>\<open>name\<close> is no keyword argument, the name in the request is
  \<^verbatim>\<open>entity_type_id\<close>. When no object is supplied, or the supplied object has every field
  at its default, the object is left as it is: the entity type is fetched by its id, the
  keyword arguments are assigned to the fetched one, and the request carries that.
\<close>

theorem update_entity_type_mask_and_name:
  "(UpdateEntityType request \<in>
      set (fst (snd (update_entity_type r assign self entity_type_id obj lang kwargs))) \<longrightarrow>
      update_req_mask request = map fst kwargs \<and>
      (truthy_obj obj \<longrightarrow>
         update_req_entity_type request =
           snd (set_attrs assign ((obj_value obj)\<lparr>et_name := str_or_empty entity_type_id\<rparr>)
                  kwargs) \<and>
         ((\<forall>t key v. key \<noteq> ''name'' \<longrightarrow> et_name (snd (assign t key v)) = et_name t) \<and>
          ''name'' \<notin> set (map fst kwargs) \<longrightarrow>
            et_name (update_req_entity_type request) = str_or_empty entity_type_id)))
   \<and> (truthy_obj obj \<and>
        fst (set_attrs assign ((obj_value obj)\<lparr>et_name := str_or_empty entity_type_id\<rparr>)
               kwargs) = Inr () \<and>
        set_region r entity_type_id = Inr options \<longrightarrow>
        update_entity_type r assign self entity_type_id obj lang kwargs =
          (rpc_update_entity_type r options \<lparr>
             update_req_entity_type =
               snd (set_attrs assign ((obj_value obj)\<lparr>et_name := str_or_empty entity_type_id\<rparr>)
                      kwargs),
             update_req_mask = map fst kwargs,
             update_req_language_code = (if truthy_id lang then str_or_empty lang else [])\<rparr>,
           [UpdateEntityType \<lparr>
             update_req_entity_type =
               snd (set_attrs assign ((obj_value obj)\<lparr>et_name := str_or_empty entity_type_id\<rparr>)
                      kwargs),
             update_req_mask = map fst kwargs,
             update_req_language_code = (if truthy_id lang then str_or_empty lang else [])\<rparr>],
           Some (snd (set_attrs assign
                        ((obj_value obj)\<lparr>et_name := str_or_empty entity_type_id\<rparr>) kwargs))))
   \<and> (\<not> truthy_obj obj \<and>
        set_region r (if \<not> truthy_id entity_type_id then self_entity_id self
                      else entity_type_id) = Inr options' \<and>
        rpc_get_entity_type r options'
          (if \<not> truthy_id entity_type_id then self_entity_id self else entity_type_id) =
          Inr fetched \<and>
        fst (set_attrs assign fetched kwargs) = Inr () \<longrightarrow>
        update_entity_type r assign self entity_type_id obj lang kwargs =
          (rpc_update_entity_type r options' \<lparr>
             update_req_entity_type = snd (set_attrs assign fetched kwargs),
             update_req_mask = map fst kwargs,
             update_req_language_code = (if truthy_id lang then str_or_empty lang else [])\<rparr>,
           [GetEntityType (if \<not> truthy_id entity_type_id then self_entity_id self
                           else entity_type_id),
            UpdateEntityType \<lparr>
             update_req_entity_type = snd (set_attrs assign fetched kwargs),
             update_req_mask = map fst kwargs,
             update_req_language_code = (if truthy_id lang then str_or_empty lang else [])\<rparr>],
           obj))"
proof (intro conjI impI)
  assume sent: "UpdateEntityType request \<in>
      set (fst (snd (update_entity_type r assign self entity_type_id obj lang kwargs)))"
  show "update_req_mask request = map fst kwargs"
  proof (cases "truthy_obj obj")
    case True
    then show ?thesis using sent update_entity_type_mask_with_obj by blast
  next
    case False
    then show ?thesis using sent by (rule update_entity_type_mask_without_obj)
  qed
next
  assume sent: "UpdateEntityType request \<in>
      set (fst (snd (update_entity_type r assign self entity_type_id obj lang kwargs)))"
    and obj: "truthy_obj obj"
  show field: "update_req_entity_type request =
      snd (set_attrs assign ((obj_value obj)\<lparr>et_name := str_or_empty entity_type_id\<rparr>) kwargs)"
    using update_entity_type_mask_with_obj [OF obj sent] by simp
  assume "(\<forall>t key v. key \<noteq> ''name'' \<longrightarrow> et_name (snd (assign t key v)) = et_name t) \<and>
          ''name'' \<notin> set (map fst kwargs)"
  then show "et_name (update_req_entity_type request) = str_or_empty entity_type_id"
    by (simp add: field set_attrs_keeps_name)
next
  assume "truthy_obj obj \<and>
        fst (set_attrs assign ((obj_value obj)\<lparr>et_name := str_or_empty entity_type_id\<rparr>)
               kwargs) = Inr () \<and>
        set_region r entity_type_id = Inr options"
  then show "update_entity_type r assign self entity_type_id obj lang kwargs =
          (rpc_update_entity_type r options \<lparr>
             update_req_entity_type =
               snd (set_attrs assign ((obj_value obj)\<lparr>et_name := str_or_empty entity_type_id\<rparr>)
                      kwargs),
             update_req_mask = map fst kwargs,
             update_req_language_code = (if truthy_id lang then str_or_empty lang else [])\<rparr>,
           [UpdateEntityType \<lparr>
             update_req_entity_type =
               snd (set_attrs assign ((obj_value obj)\<lparr>et_name := str_or_empty entity_type_id\<rparr>)
                      kwargs),
             update_req_mask = map fst kwargs,
             update_req_language_code = (if truthy_id lang then str_or_empty lang else [])\<rparr>],
           Some (snd (set_attrs assign
                        ((obj_value obj)\<lparr>et_name := str_or_empty entity_type_id\<rparr>) kwargs)))"
    by (simp add: update_entity_type_with_obj)
next
  assume "\<not> truthy_obj obj \<and>
        set_region r (if \<not> truthy_id entity_type_id then self_entity_id self
                      else entity_type_id) = Inr options' \<and>
        rpc_get_entity_type r options'
          (if \<not> truthy_id entity_type_id then self_entity_id self else entity_type_id) =
          Inr fetched \<and>
        fst (set_attrs assign fetched kwargs) = Inr ()"
  then show "update_entity_type r assign self entity_type_id obj lang kwargs =
          (rpc_update_entity_type r options' \<lparr>
             update_req_entity_type = snd (set_attrs assign fetched kwargs),
             update_req_mask = map fst kwargs,
             update_req_language_code = (if truthy_id lang then str_or_empty lang else [])\<rparr>,
           [GetEntityType (if \<not> truthy_id entity_type_id then self_entity_id self
                           else entity_type_id),
            UpdateEntityType \<lparr>
             update_req_entity_type = snd (set_attrs assign fetched kwargs),
             update_req_mask = map fst kwargs,
             update_req_language_code = (if truthy_id lang then str_or_empty lang else [])\<rparr>],
           obj)"
    by (elim conjE) (rule update_entity_type_fetches)
qed

text \<open>
  The theorem at two updates to the id \<open>e2\<close> with the keyword argument
  \<^verbatim>\<open>display_name=None\<close>: one with \<open>size_entity_type\<close> as the object, one with the id
  alone, where the remote service answers the fetch with \<open>size_entity_type\<close>.
\<close>

theorem update_entity_type_mask_and_name_witness:
  "update_entity_type remote_up setattr_None wrapper (Some ''e2'') (Some size_entity_type) None
       [(''display_name'', ())] =
     (Inr (size_entity_type\<lparr>et_name := ''e2'', et_display_name := []\<rparr>),
      [UpdateEntityType \<lparr>
         update_req_entity_type = size_entity_type\<lparr>et_name := ''e2'', et_display_name := []\<rparr>,
         update_req_mask = [''display_name''],
         update_req_language_code = []\<rparr>],
      Some (size_entity_type\<lparr>et_name := ''e2'', et_display_name := []\<rparr>))
   \<and> update_entity_type remote_up setattr_None wrapper (Some ''e2'') None None
       [(''display_name'', ())] =
     (Inr (size_entity_type\<lparr>et_display_name := []\<rparr>),
      [GetEntityType (Some ''e2''),
       UpdateEntityType \<lparr>
         update_req_entity_type = size_entity_type\<lparr>et_display_name := []\<rparr>,
         update_req_mask = [''display_name''],
         update_req_language_code = []\<rparr>],
      None)
   \<and> et_name (size_entity_type\<lparr>et_name := ''e2'', et_display_name := []\<rparr>) = ''e2''"
proof -
  let ?kw = "[(''display_name'', ())] :: (string \<times> unit) list"
  let ?q = "\<lparr>update_req_entity_type = size_entity_type\<lparr>et_name := ''e2'', et_display_name := []\<rparr>,
         update_req_mask = [''display_name''], update_req_language_code = []\<rparr>"
  have t: "truthy_obj (Some size_entity_type)"
    by (simp add: truthy_obj_def truthy_EntityType_def size_entity_type_def)
  have n: "\<not> truthy_obj None"
    by (simp add: truthy_obj_def)
  have a1: "set_attrs setattr_None ((obj_value (Some size_entity_type))\<lparr>et_name := str_or_empty (Some ''e2'')\<rparr>) ?kw =
      (Inr (), size_entity_type\<lparr>et_name := ''e2'', et_display_name := []\<rparr>)"
    by (simp add: setattr_None_def obj_value_def str_or_empty_def)
  have a2: "set_attrs setattr_None size_entity_type ?kw =
      (Inr (), size_entity_type\<lparr>et_display_name := []\<rparr>)"
    by (simp add: setattr_None_def)
  have g1: "set_region remote_up (Some ''e2'') = Inr None"
    by (simp add: remote_up_def)
  have id: "(if \<not> truthy_id (Some ''e2'') then self_entity_id wrapper else Some ''e2'') = Some ''e2''"
    by (simp add: truthy_id_def)
  have g2: "rpc_get_entity_type remote_up None (Some ''e2'') = Inr size_entity_type"
    by (simp add: remote_up_def)
  have u: "rpc_update_entity_type remote_up None q = Inr (update_req_entity_type q)" for q
    by (simp add: remote_up_def)
  have l: "\<not> truthy_id None"
    by (simp add: truthy_id_def)
  note th = update_entity_type_mask_and_name [of ?q remote_up setattr_None wrapper "Some ''e2''"
        "Some size_entity_type" None ?kw None None size_entity_type]
  note th' = update_entity_type_mask_and_name [of ?q remote_up setattr_None wrapper "Some ''e2''"
        None None ?kw None None size_entity_type]
  have r1: "update_entity_type remote_up setattr_None wrapper (Some ''e2'') (Some size_entity_type)
      None ?kw = (Inr (size_entity_type\<lparr>et_name := ''e2'', et_display_name := []\<rparr>),
        [UpdateEntityType ?q],
        Some (size_entity_type\<lparr>et_name := ''e2'', et_display_name := []\<rparr>))"
    using th [THEN conjunct2, THEN conjunct1, rule_format, OF conjI [OF t conjI [OF _ g1]]]
    by (simp add: a1 u l del: set_attrs.simps)
  have r2: "update_entity_type remote_up setattr_None wrapper (Some ''e2'') None None ?kw =
      (Inr (size_entity_type\<lparr>et_display_name := []\<rparr>),
       [GetEntityType (Some ''e2''),
        UpdateEntityType \<lparr>update_req_entity_type = size_entity_type\<lparr>et_display_name := []\<rparr>,
          update_req_mask = [''display_name''], update_req_language_code = []\<rparr>],
       None)"
    using th' [THEN conjunct2, THEN conjunct2, rule_format, OF conjI [OF n conjI [OF _ conjI]]]
    by (simp add: id g1 g2 a2 u l del: set_attrs.simps)
  have r3: "et_name (size_entity_type\<lparr>et_name := ''e2'', et_display_name := []\<rparr>) = ''e2''"
    by simp
  show ?thesis
    using r1 r2 r3 by (intro conjI)
qed

text \<open>
  Claim C9 as stated fails: the supplied object is \<^verbatim>\<open>EntityType()\<close>, with every field
  at its default. Its name is not set to the id \<open>e2\<close>; the entity type is fetched, and
  the request carries the fetched one under its own name.
\<close>

theorem update_entity_type_default_obj_ignored:
  "update_entity_type remote_up setattr_None wrapper (Some ''e2'') (Some EntityType0) None [] =
     (Inr size_entity_type,
      [GetEntityType (Some ''e2''),
       UpdateEntityType \<lparr>update_req_entity_type = size_entity_type, update_req_mask = [],
         update_req_language_code = []\<rparr>],
      Some EntityType0)
   \<and> et_name EntityType0 \<noteq> ''e2''
   \<and> et_name size_entity_type \<noteq> ''e2''"
  by (simp add: update_entity_type_def get_entity_type_def truthy_obj_def truthy_EntityType_def
      EntityType0_def size_entity_type_def remote_up_def wrapper_def truthy_id_def
      str_or_empty_def Let_def)

section \<open>Deleting with a supplied object\<close>

lemma truthy_EntityType_iff:
  "truthy_EntityType t \<longleftrightarrow> t \<noteq> EntityType0"
  by (cases t) (auto simp: truthy_EntityType_def EntityType0_def)

text \<open>
  Claim C10, as amended. When \<^verbatim>\<open>delete_entity_type\<close> is given an object that
  \<^verbatim>\<open>if obj\<close> accepts, that is an object with at least one field not at its default, it
  returns \<^verbatim>\<open>None\<close> and sends no request at all. A delete request is sent only in a call
  without such an object (no object, or one with every field at its default), and it is
  sent there whenever \<^verbatim>\<open>_set_region\<close> succeeds.
\<close>

theorem delete_entity_type_with_obj:
  "(truthy_obj obj \<longleftrightarrow> obj \<noteq> None \<and> obj \<noteq> Some EntityType0)
   \<and> (truthy_obj obj \<longrightarrow> delete_entity_type r self entity_id obj = (Inr (), []))
   \<and> (DeleteEntityType name \<in> set (snd (delete_entity_type r self entity_id obj)) \<longrightarrow>
        \<not> truthy_obj obj)
   \<and> (\<not> truthy_obj obj \<and>
        set_region r (if \<not> truthy_id entity_id then self_entity_id self else entity_id) =
          Inr options \<longrightarrow>
        delete_entity_type r self entity_id obj =
          (rpc_delete_entity_type r options
             (if \<not> truthy_id entity_id then self_entity_id self else entity_id),
           [DeleteEntityType
              (if \<not> truthy_id entity_id then self_entity_id self else entity_id)]))"
proof (intro conjI)
  show "truthy_obj obj \<longleftrightarrow> obj \<noteq> None \<and> obj \<noteq> Some EntityType0"
    by (cases obj) (simp_all add: truthy_obj_def truthy_EntityType_iff)
qed (auto simp: delete_entity_type_def Let_def split: sum.splits)

text \<open>
  The theorem at a call with \<open>size_entity_type\<close> as the object, and at a call with
  the id alone.
\<close>

theorem delete_entity_type_with_obj_witness:
  "delete_entity_type remote_up wrapper None (Some size_entity_type) = (Inr (), [])
   \<and> delete_entity_type remote_up wrapper
       (Some ''projects/p/locations/global/agents/a/entityTypes/e'') None =
     (Inr (), [DeleteEntityType (Some ''projects/p/locations/global/agents/a/entityTypes/e'')])"
proof -
  have t: "truthy_obj (Some size_entity_type)"
    by (simp add: truthy_obj_def truthy_EntityType_def size_entity_type_def)
  have n: "\<not> truthy_obj None"
    by (simp add: truthy_obj_def)
  show ?thesis
    using delete_entity_type_with_obj [of "Some size_entity_type" remote_up wrapper None]
      delete_entity_type_with_obj [of None remote_up wrapper
        "Some ''projects/p/locations/global/agents/a/entityTypes/e''" _ None] t n
    by (simp add: remote_up_def truthy_id_def)
qed

text \<open>
  Claim C10 as stated fails: the supplied object is \<^verbatim>\<open>EntityType()\<close>, with every field
  at its default, and the delete request for the given id is sent.
\<close>

theorem delete_entity_type_default_obj_sends:
  "delete_entity_type remote_up wrapper
       (Some ''projects/p/locations/global/agents/a/entityTypes/e'') (Some EntityType0) =
     (Inr (), [DeleteEntityType (Some ''projects/p/locations/global/agents/a/entityTypes/e'')])"
  by (simp add: delete_entity_type_def truthy_obj_def truthy_EntityType_def EntityType0_def
      remote_up_def truthy_id_def Let_def)

section \<open>The basic report of the entity types\<close>

text \<open>
  The inner loop of \<^verbatim>\<open>entity_type_proto_to_dataframe\<close> hands the dictionary
  \<^verbatim>\<open>entity_type_dict\<close> itself to \<^verbatim>\<open>pd.concat\<close>, which accepts pandas objects only: the
  first synonym of the first entity raises \<open>TypeError\<close>. Without any synonym no row
  and no column is ever made, and \<^verbatim>\<open>sort_values\<close> finds no column \<open>display_name\<close>.
\<close>

lemma synonyms_loop_result:
  "synonyms_loop syns d df = (if syns = [] then Inr (d, df) else Inl TypeError)"
  by (cases syns) (simp_all add: pd_concat_def Let_def)

lemma entities_loop_result:
  "entities_loop es d df =
     (if list_ex (\<lambda>e. synonyms e \<noteq> []) es then Inl TypeError
      else Inr (foldl (\<lambda>d e. AList.update ''entity_value'' (entity_value e) d) d es, df))"
  by (induction es arbitrary: d) (simp_all add: synonyms_loop_result Let_def)

lemma entity_type_proto_to_dataframe_basic_result:
  "entity_type_proto_to_dataframe_basic obj =
     (if list_ex (\<lambda>e. synonyms e \<noteq> []) (et_entities obj) then Inl TypeError
      else Inr DataFrame_empty)"
  by (simp add: entity_type_proto_to_dataframe_basic_def entities_loop_result)

lemma pd_concat_empty:
  "pd_concat [PdDataFrame DataFrame_empty, PdDataFrame DataFrame_empty] = Inr DataFrame_empty"
  by (simp add: pd_concat_def DataFrame_empty_def)

lemma entity_types_loop_result:
  "entity_types_loop names ets DataFrame_empty = Inl TypeError \<or>
   entity_types_loop names ets DataFrame_empty = Inr DataFrame_empty"
  by (induction ets)
    (simp_all add: entity_type_proto_to_dataframe_basic_result pd_concat_empty)

lemma sort_values_empty:
  "sort_values [''display_name'', ''entity_value''] DataFrame_empty = Inl KeyError"
  by (simp add: sort_values_def DataFrame_empty_def)

lemma entity_types_to_df_basic_raises:
  "isl (fst (entity_types_to_df_basic r self agent_id names))"
proof -
  let ?id = "if \<not> truthy_id agent_id then self_agent_id self else agent_id"
  obtain res sent where l: "list_entity_types r self ?id = (res, sent)"
    by (cases "list_entity_types r self ?id")
  show ?thesis
  proof (cases res)
    case (Inl e)
    with l show ?thesis by (simp add: entity_types_to_df_basic_def Let_def)
  next
    case (Inr ets)
    with l entity_types_loop_result [of names ets] show ?thesis
      by (auto simp: entity_types_to_df_basic_def Let_def sort_values_empty)
  qed
qed

text \<open>
  Claim C8 at its failing input. \<^verbatim>\<open>entity_types_to_df\<close> with \<^verbatim>\<open>mode="basic"\<close> raises on
  every input, so it returns no table, sorted or not. For the agent whose one entity type
  \<open>size\<close> has the entity \<open>small\<close> with two synonyms, the listing succeeds and the
  report raises \<open>TypeError\<close>.
\<close>

theorem entity_types_to_df_basic_never_returns:
  "isl (fst (entity_types_to_df_basic r self agent_id names))
   \<and> entity_types_to_df_basic remote_up wrapper None None =
       (Inl TypeError, [ListEntityTypes ''projects/p/locations/global/agents/a''])"
proof
  show "isl (fst (entity_types_to_df_basic r self agent_id names))"
    by (rule entity_types_to_df_basic_raises)
  have "list_entity_types remote_up wrapper (Some ''projects/p/locations/global/agents/a'') =
          (Inr [size_entity_type], [ListEntityTypes ''projects/p/locations/global/agents/a''])"
    by (simp add: list_entity_types_def remote_up_def wrapper_def truthy_id_def
        str_or_empty_def Let_def)
  moreover have "entity_types_loop None [size_entity_type] DataFrame_empty = Inl TypeError"
    by (simp add: entity_type_proto_to_dataframe_basic_result size_entity_type_def)
  ultimately show "entity_types_to_df_basic remote_up wrapper None None =
       (Inl TypeError, [ListEntityTypes ''projects/p/locations/global/agents/a''])"
    by (simp add: entity_types_to_df_basic_def wrapper_def truthy_id_def Let_def)
qed

end
